theory Spec2Isabelle
  imports Complex_Main "HOL-Library.Char_ord" "HOL-Library.List_Lexorder" "HOL-Library.AList"
begin

section \<open>Live Currency Rate: a shallow embedding of \<^verbatim>\<open>src/tool.py\<close>\<close>

text \<open>
  The module is a class \<^verbatim>\<open>Tools\<close> with three tool methods (\<^verbatim>\<open>convert_currency\<close>,
  \<^verbatim>\<open>get_crypto_price\<close>, \<^verbatim>\<open>list_currencies\<close>), a rate cache (\<^verbatim>\<open>_fetch_rates\<close>), a formatter
  (\<^verbatim>\<open>_format_amount\<close>) and an update notifier (\<^verbatim>\<open>_load_state\<close>, \<^verbatim>\<open>_check_github_release\<close>,
  \<^verbatim>\<open>_get_update_notification\<close>, \<^verbatim>\<open>_should_check_for_updates\<close>, \<^verbatim>\<open>_check_and_notify_updates\<close>).

  Modelling decisions, valid for the whole theory:
  \<^item> A Python \<^verbatim>\<open>float\<close> is modelled by the rational number it denotes (\<open>rat\<close>). Addition,
    multiplication and division are exact: rounding of the binary format, overflow, NaN
    and the infinities are not modelled. Division by zero raises \<^verbatim>\<open>ZeroDivisionError\<close>, as
    in Python.
  \<^item> Every exception is a value of \<open>py_error\<close>; a function that can raise returns
    \<open>py_error + 'a\<close> with \<open>Inl\<close> for the exception.
  \<^item> The clock (\<^verbatim>\<open>time.time()\<close>, \<^verbatim>\<open>datetime.now()\<close>), the HTTP responses and the content of
    the state file are inputs of the functions that read them.
  \<^item> Strings are ASCII; the emoji and the final layout of the response texts are not
    modelled: a response is a value of \<open>response\<close> that carries the text's parts.
\<close>

subsection \<open>Exceptions\<close>

datatype py_error =
    KeyError string
  | ZeroDivisionError
  | AttributeError
  | TypeError
  | NameError string
  | OSError
  | FetchError string

text \<open>Sequencing of two steps, the first of which may raise.\<close>

definition and_then :: "py_error + 'a \<Rightarrow> ('a \<Rightarrow> py_error + 'b) \<Rightarrow> py_error + 'b" where
  "and_then r f = (case r of Inl e \<Rightarrow> Inl e | Inr v \<Rightarrow> f v)"

text \<open>\<^verbatim>\<open>a / b\<close> on numbers.\<close>

definition py_div :: "rat \<Rightarrow> rat \<Rightarrow> py_error + rat" where
  "py_div a b = (if b = 0 then Inl ZeroDivisionError else Inr (a / b))"

subsection \<open>Configuration (\<^verbatim>\<open>Tools.Valves\<close>) and constants\<close>

record valves =
  ENABLE_UPDATE_CHECK :: bool
  CACHE_DURATION :: int
  API_URL :: string

definition default_valves :: valves where
  "default_valves =
     \<lparr>ENABLE_UPDATE_CHECK = True,
      CACHE_DURATION = 180,
      API_URL = ''https://cdn.jsdelivr.net/gh/anvme/currency@main/latest.json''\<rparr>"

definition CURRENT_VERSION :: string where
  "CURRENT_VERSION = ''0.1.0''"

definition crypto_currencies :: "string list" where
  "crypto_currencies = [''BTC'', ''ETH'', ''SOL'']"

subsection \<open>The rate table and the cache (\<^verbatim>\<open>_fetch_rates\<close>, lines 137-163)\<close>

text \<open>
  The decoded body of the rate endpoint. \<^verbatim>\<open>response.json()\<close> yields any JSON value: a
  dictionary (\<open>Table\<close>; each of its three keys may be missing, since the tools read them with
  \<^verbatim>\<open>data.get(key, default)\<close>), \<^verbatim>\<open>None\<close> for the body \<^verbatim>\<open>null\<close> (\<open>PyNone\<close>), or another value
  (\<open>NotDict\<close>). The dictionary \<^verbatim>\<open>rates\<close> is an association list in insertion order with
  distinct keys; its values are numbers.
\<close>

record rate_table =
  tbl_base :: "string option"
  tbl_rates :: "(string \<times> rat) list option"
  tbl_updated :: "string option"

datatype payload = PyNone | Table rate_table | NotDict

record cache =
  data :: payload
  timestamp :: rat

text \<open>\<^verbatim>\<open>self.cache = {"data": None, "timestamp": 0}\<close> (line 47).\<close>

definition initial_cache :: cache where
  "initial_cache = \<lparr>data = PyNone, timestamp = 0\<rparr>"

text \<open>
  What the \<^verbatim>\<open>try\<close> block of lines 149-158 meets: \<^verbatim>\<open>requests.get\<close>, \<^verbatim>\<open>raise_for_status\<close> or
  \<^verbatim>\<open>response.json()\<close> raises (\<open>Raised\<close>, with the exception's text), or the body decodes
  (\<open>Decoded\<close>). Which responses make the \<^verbatim>\<open>requests\<close> library raise is that library's
  business and is not modelled.
\<close>

datatype fetch_outcome = Raised string | Decoded payload

text \<open>
  \<open>fetch_rates V now net c\<close> returns the result, the cache afterwards and the number of
  network requests made. \<open>net\<close> is consulted only where the code calls \<^verbatim>\<open>requests.get\<close>.
\<close>

definition cache_is_valid :: "valves \<Rightarrow> rat \<Rightarrow> cache \<Rightarrow> bool" where
  "cache_is_valid V current_time c \<longleftrightarrow>
     data c \<noteq> PyNone \<and> current_time - timestamp c < of_int (CACHE_DURATION V)"

definition fetch_rates ::
  "valves \<Rightarrow> rat \<Rightarrow> fetch_outcome \<Rightarrow> cache \<Rightarrow> (py_error + payload) \<times> cache \<times> nat" where
  "fetch_rates V current_time net c =
     (if cache_is_valid V current_time c then (Inr (data c), c, 0)
      else (case net of
              Decoded d \<Rightarrow> (Inr d, c\<lparr>data := d, timestamp := current_time\<rparr>, 1)
            | Raised msg \<Rightarrow>
                (if data c \<noteq> PyNone then (Inr (data c), c, 1)
                 else (Inl (FetchError msg), c, 1))))"

text \<open>
  A run of calls on one cache: each call has its own clock reading and its own network
  outcome. The run returns, per call, the result and the number of requests, and the
  cache at the end.
\<close>

fun fetch_run ::
  "valves \<Rightarrow> cache \<Rightarrow> (rat \<times> fetch_outcome) list \<Rightarrow> ((py_error + payload) \<times> nat) list \<times> cache" where
  "fetch_run V c [] = ([], c)"
| "fetch_run V c ((t, net) # calls) =
     (case fetch_rates V t net c of
        (r, c', n) \<Rightarrow> (case fetch_run V c' calls of (rs, c'') \<Rightarrow> ((r, n) # rs, c'')))"

subsection \<open>The formatter (\<^verbatim>\<open>_format_amount\<close>, lines 165-179)\<close>

text \<open>
  \<^verbatim>\<open>f"{x:,.nf}"\<close>: the value is rounded to \<open>n\<close> decimals, to the nearest and on a tie to the
  even neighbour (Python rounds the exact value of the float), the integer digits are
  grouped in threes by commas, and a negative value keeps its sign.
\<close>

definition round_half_even :: "rat \<Rightarrow> int" where
  "round_half_even q =
     (let f = \<lfloor>q\<rfloor>; d = q - of_int f
      in if d < 1 / 2 then f else if 1 / 2 < d then f + 1 else if even f then f else f + 1)"

definition digit_char :: "nat \<Rightarrow> char" where
  "digit_char d = ''0123456789'' ! d"

fun digits_of :: "nat \<Rightarrow> string" where
  "digits_of n = (if n < 10 then [digit_char n] else digits_of (n div 10) @ [digit_char (n mod 10)])"

fun commas_rev :: "string \<Rightarrow> string" where
  "commas_rev (a # b # c # d # xs) = a # b # c # CHR '','' # commas_rev (d # xs)"
| "commas_rev xs = xs"

definition group_thousands :: "string \<Rightarrow> string" where
  "group_thousands s = rev (commas_rev (rev s))"

definition zero_pad :: "nat \<Rightarrow> string \<Rightarrow> string" where
  "zero_pad n s = replicate (n - length s) CHR ''0'' @ s"

definition format_fixed :: "nat \<Rightarrow> rat \<Rightarrow> string" where
  "format_fixed n x =
     (let m = nat (round_half_even (\<bar>x\<bar> * 10 ^ n));
          int_part = m div 10 ^ n;
          frac_part = m mod 10 ^ n
      in (if x < 0 then ''-'' else '''')
         @ group_thousands (digits_of int_part)
         @ (if n = 0 then '''' else CHR ''.'' # zero_pad n (digits_of frac_part)))"

text \<open>\<^verbatim>\<open>s.rstrip(c)\<close> for a single character \<open>c\<close>.\<close>

definition rstrip :: "char \<Rightarrow> string \<Rightarrow> string" where
  "rstrip c s = rev (dropWhile (\<lambda>x. x = c) (rev s))"

definition format_amount :: "rat \<Rightarrow> string \<Rightarrow> string" where
  "format_amount amount currency =
     (if currency \<in> set crypto_currencies then
        rstrip CHR ''.'' (rstrip CHR ''0'' (format_fixed 8 amount))
      else if 100 \<le> amount then format_fixed 2 amount
      else if 1 \<le> amount then format_fixed 4 amount
      else rstrip CHR ''.'' (rstrip CHR ''0'' (format_fixed 6 amount)))"

text \<open>
  The rule as the specification words it: strip the trailing zero digits, then one
  trailing decimal point if one remains.
\<close>

definition spec_strip :: "string \<Rightarrow> string" where
  "spec_strip s =
     (let t = rev (dropWhile (\<lambda>x. x = CHR ''0'') (rev s))
      in if t \<noteq> [] \<and> last t = CHR ''.'' then butlast t else t)"

definition spec_format :: "rat \<Rightarrow> string \<Rightarrow> string" where
  "spec_format amount code =
     (if code = ''BTC'' \<or> code = ''ETH'' \<or> code = ''SOL'' then spec_strip (format_fixed 8 amount)
      else if 100 \<le> amount then format_fixed 2 amount
      else if 1 \<le> amount \<and> amount < 100 then format_fixed 4 amount
      else spec_strip (format_fixed 6 amount))"

text \<open>
  What the specification means by rendering a number with \<open>n\<close> decimal places, stated on
  the text alone and without the functions above. \<open>read_nat\<close> reads a string of decimal
  digits. \<open>renders n x s\<close> says: \<open>s\<close> is the sign of \<open>x\<close>, then the integer digits in groups
  of three separated by commas, then (for \<open>n > 0\<close>) a point and exactly \<open>n\<close> digits, where
  the digits read as the natural number nearest to \<open>\<bar>x\<bar> * 10 ^ n\<close>, the even one of the two
  on a tie, and the integer part has no leading zero.
\<close>

definition is_digit :: "char \<Rightarrow> bool" where
  "is_digit c \<longleftrightarrow> CHR ''0'' \<le> c \<and> c \<le> CHR ''9''"

definition digit_of :: "char \<Rightarrow> nat" where
  "digit_of c = of_char c - 48"

definition read_nat :: "string \<Rightarrow> nat" where
  "read_nat s = foldl (\<lambda>a c. 10 * a + digit_of c) 0 s"

definition decimal_of :: "string \<Rightarrow> nat \<Rightarrow> bool" where
  "decimal_of s k \<longleftrightarrow>
     s \<noteq> [] \<and> list_all is_digit s \<and> read_nat s = k \<and> (s = ''0'' \<or> hd s \<noteq> CHR ''0'')"

definition grouped_by_thousands :: "string \<Rightarrow> string \<Rightarrow> bool" where
  "grouped_by_thousands g s \<longleftrightarrow>
     filter (\<lambda>c. c \<noteq> CHR '','') g = s \<and> g \<noteq> [] \<and> hd g \<noteq> CHR '',''
     \<and> list_all (\<lambda>i. (rev g ! i = CHR '','') = (i mod 4 = 3)) [0..<length g]"

definition rounded_half_even :: "rat \<Rightarrow> nat \<Rightarrow> bool" where
  "rounded_half_even q r \<longleftrightarrow>
     \<bar>of_nat r - q\<bar> < 1 / 2 \<or> (\<bar>of_nat r - q\<bar> = 1 / 2 \<and> even r)"

definition renders :: "nat \<Rightarrow> rat \<Rightarrow> string \<Rightarrow> bool" where
  "renders n x s \<longleftrightarrow>
     (\<exists>r g d f.
        rounded_half_even (\<bar>x\<bar> * 10 ^ n) r
        \<and> decimal_of d (r div 10 ^ n) \<and> grouped_by_thousands g d
        \<and> length f = n \<and> list_all is_digit f \<and> read_nat f = r mod 10 ^ n
        \<and> s = (if x < 0 then ''-'' else '''') @ g @ (if n = 0 then '''' else CHR ''.'' # f))"

text \<open>
  The formatting rule of the specification over that account: the text \<open>s\<close> is a formatting
  of \<open>amount\<close> for \<open>code\<close>.
\<close>

definition spec_formatted :: "rat \<Rightarrow> string \<Rightarrow> string \<Rightarrow> bool" where
  "spec_formatted amount code s \<longleftrightarrow>
     (if code = ''BTC'' \<or> code = ''ETH'' \<or> code = ''SOL'' then
        \<exists>t. renders 8 amount t \<and> s = spec_strip t
      else if 100 \<le> amount then renders 2 amount s
      else if 1 \<le> amount \<and> amount < 100 then renders 4 amount s
      else \<exists>t. renders 6 amount t \<and> s = spec_strip t)"

subsection \<open>The conversion engine (\<^verbatim>\<open>convert_currency\<close>, lines 221-342)\<close>

text \<open>\<^verbatim>\<open>s.upper()\<close>, \<^verbatim>\<open>s.lower()\<close> and \<^verbatim>\<open>s.strip()\<close> on ASCII strings.\<close>

definition upper_char :: "char \<Rightarrow> char" where
  "upper_char c = (if CHR ''a'' \<le> c \<and> c \<le> CHR ''z'' then char_of (of_char c - (32::nat)) else c)"

definition lower_char :: "char \<Rightarrow> char" where
  "lower_char c = (if CHR ''A'' \<le> c \<and> c \<le> CHR ''Z'' then char_of (of_char c + (32::nat)) else c)"

definition upper :: "string \<Rightarrow> string" where
  "upper s = map upper_char s"

definition lower :: "string \<Rightarrow> string" where
  "lower s = map lower_char s"

definition is_space :: "char \<Rightarrow> bool" where
  "is_space c \<longleftrightarrow>
     c \<in> set [CHR '' '', CHR 0x09, CHR 0x0A, CHR 0x0B, CHR 0x0C, CHR 0x0D,
               CHR 0x1C, CHR 0x1D, CHR 0x1E, CHR 0x1F]"

definition strip :: "string \<Rightarrow> string" where
  "strip s = dropWhile is_space (rev (dropWhile is_space (rev s)))"

text \<open>\<^verbatim>\<open>rates[code]\<close>: a missing key raises \<^verbatim>\<open>KeyError\<close>.\<close>

definition lookup_rate :: "(string \<times> rat) list \<Rightarrow> string \<Rightarrow> py_error + rat" where
  "lookup_rate rates code = (case map_of rates code of None \<Rightarrow> Inl (KeyError code) | Some r \<Rightarrow> Inr r)"

text \<open>Lines 272-309: the three cases that compute \<^verbatim>\<open>result\<close>.\<close>

definition conversion_result ::
  "(string \<times> rat) list \<Rightarrow> string \<Rightarrow> string \<Rightarrow> string \<Rightarrow> rat \<Rightarrow> py_error + rat" where
  "conversion_result rates base from_currency to_currency amount =
     (let from_is_crypto = from_currency \<in> set crypto_currencies;
          to_is_crypto = to_currency \<in> set crypto_currencies
      in if from_currency = base then
           (if to_is_crypto then
              and_then (lookup_rate rates to_currency) (\<lambda>r. py_div amount r)
            else
              and_then (lookup_rate rates to_currency) (\<lambda>r. Inr (amount * r)))
         else if to_currency = base then
           (if from_is_crypto then
              and_then (lookup_rate rates from_currency) (\<lambda>r. Inr (amount * r))
            else
              and_then (lookup_rate rates from_currency) (\<lambda>r. py_div amount r))
         else
           and_then
             (if from_is_crypto then
                and_then (lookup_rate rates from_currency) (\<lambda>r. Inr (amount * r))
              else
                and_then (lookup_rate rates from_currency) (\<lambda>r. py_div amount r))
             (\<lambda>usd_value.
                if to_is_crypto then
                  and_then (lookup_rate rates to_currency) (\<lambda>r. py_div usd_value r)
                else
                  and_then (lookup_rate rates to_currency) (\<lambda>r. Inr (usd_value * r))))"

text \<open>
  Lines 250-312 on a fetched table: the defaults of \<^verbatim>\<open>data.get\<close>, the normalisation of the
  two codes, their validation, \<^verbatim>\<open>result\<close> and \<^verbatim>\<open>rate = result / amount\<close>. The outcome is the
  early return of lines 259-265 (\<open>NotFound\<close>, with the code and the hint of at most 20
  sorted keys), an exception (\<open>Failed\<close>), or \<open>Converted\<close> with the normalised codes, the
  amount, \<^verbatim>\<open>result\<close> and \<^verbatim>\<open>rate\<close>.
\<close>

datatype conv_outcome =
    NotFound string "string list"
  | Failed py_error
  | Converted string string rat rat rat

definition rates_of :: "rate_table \<Rightarrow> (string \<times> rat) list" where
  "rates_of t = (case tbl_rates t of None \<Rightarrow> [] | Some rs \<Rightarrow> rs)"

definition base_of :: "rate_table \<Rightarrow> string" where
  "base_of t = (case tbl_base t of None \<Rightarrow> ''USD'' | Some b \<Rightarrow> b)"

definition known_code :: "(string \<times> rat) list \<Rightarrow> string \<Rightarrow> string \<Rightarrow> bool" where
  "known_code rates base code \<longleftrightarrow> code \<in> set (map fst rates) \<or> code = base"

definition available_hint :: "(string \<times> rat) list \<Rightarrow> string list" where
  "available_hint rates = take 20 (sort (map fst rates))"

definition convert ::
  "(string \<times> rat) list \<Rightarrow> string \<Rightarrow> string \<Rightarrow> string \<Rightarrow> rat \<Rightarrow> conv_outcome" where
  "convert rates base from_currency to_currency amount =
     (if \<not> known_code rates base from_currency then NotFound from_currency (available_hint rates)
      else if \<not> known_code rates base to_currency then NotFound to_currency (available_hint rates)
      else (case conversion_result rates base from_currency to_currency amount of
              Inl e \<Rightarrow> Failed e
            | Inr result \<Rightarrow>
                (case py_div result amount of
                   Inl e \<Rightarrow> Failed e
                 | Inr rate \<Rightarrow> Converted from_currency to_currency amount result rate)))"

definition convert_on_table :: "rate_table \<Rightarrow> string \<Rightarrow> string option \<Rightarrow> rat \<Rightarrow> conv_outcome" where
  "convert_on_table t from_currency to_currency amount =
     (let rates = rates_of t;
          base = base_of t;
          from_code = strip (upper from_currency);
          to_code = (case to_currency of
                       None \<Rightarrow> base
                     | Some s \<Rightarrow> if s \<noteq> [] then strip (upper s) else base)
      in convert rates base from_code to_code amount)"

text \<open>
  What a tool returns. \<open>Conversion\<close> carries the formatted amount, the source code, the
  formatted result, the target code and the formatted rate of lines 317-319 and 334-336;
  \<open>CurrencyNotFound\<close> the text of lines 261 and 265; \<open>ErrorText\<close> the text of lines 342 and
  420; \<open>Listing\<close> the title, the count, the sorted crypto codes and the rows of fiat codes
  of lines 397-415; \<open>InvalidFilter\<close> the text of line 391.
\<close>

datatype response =
    Conversion string string string string string
  | CurrencyNotFound string "string list"
  | ErrorText py_error
  | Listing string nat "string list" "string list list"
  | InvalidFilter

definition render :: "conv_outcome \<Rightarrow> response" where
  "render out =
     (case out of
        NotFound code hint \<Rightarrow> CurrencyNotFound code hint
      | Failed e \<Rightarrow> ErrorText e
      | Converted from_code to_code amount result rate \<Rightarrow>
          Conversion (format_amount amount from_code) from_code
                     (format_amount result to_code) to_code
                     (format_amount rate to_code))"

subsection \<open>The update state (\<^verbatim>\<open>_load_state\<close>, \<^verbatim>\<open>_save_state\<close>, lines 50-71)\<close>

text \<open>
  \<^verbatim>\<open>self.update_state\<close> is a Python dictionary: an association list from keys to values. A
  value is a JSON value (what \<^verbatim>\<open>json.load\<close> yields, and the strings and booleans the module
  stores) or a \<^verbatim>\<open>datetime\<close>, written as the microseconds since 1970-01-01T00:00:00 (naive
  local time). \<^verbatim>\<open>d[k]\<close> is \<open>map_of d k\<close> with \<^verbatim>\<open>KeyError\<close> on \<open>None\<close>; \<^verbatim>\<open>d[k] = v\<close> is
  \<open>AList.update k v d\<close>.
\<close>

datatype json =
    JNull
  | JBool bool
  | JNum rat
  | JStr string
  | JArr "json list"
  | JObj "(string \<times> json) list"

datatype pyval = Json json | DateTime int

type_synonym state = "(string \<times> pyval) list"

text \<open>The truth value of a Python object (\<^verbatim>\<open>not x\<close>, \<^verbatim>\<open>if x\<close>).\<close>

fun truthy :: "pyval \<Rightarrow> bool" where
  "truthy (Json JNull) = False"
| "truthy (Json (JBool b)) = b"
| "truthy (Json (JNum n)) = (n \<noteq> 0)"
| "truthy (Json (JStr s)) = (s \<noteq> [])"
| "truthy (Json (JArr xs)) = (xs \<noteq> [])"
| "truthy (Json (JObj kvs)) = (kvs \<noteq> [])"
| "truthy (DateTime t) = True"

text \<open>\<^verbatim>\<open>datetime(2024, 1, 1)\<close>: 1704067200 seconds after 1970-01-01.\<close>

definition datetime_2024_01_01 :: int where
  "datetime_2024_01_01 = 1704067200 * 1000000"

definition default_state :: state where
  "default_state =
     [(''last_check'', DateTime datetime_2024_01_01),
      (''latest_version'', Json JNull),
      (''latest_url'', Json JNull),
      (''has_shown_notification'', Json (JBool False))]"

text \<open>
  What \<^verbatim>\<open>open\<close> and \<^verbatim>\<open>json.load\<close> meet at \<^verbatim>\<open>DATA_FILE\<close>: no file (\<^verbatim>\<open>FileNotFoundError\<close>), a
  file that cannot be opened (another \<^verbatim>\<open>OSError\<close>), content that is not JSON
  (\<^verbatim>\<open>JSONDecodeError\<close>, or \<^verbatim>\<open>UnicodeDecodeError\<close>, a \<^verbatim>\<open>ValueError\<close>), or a JSON value.
\<close>

datatype state_file = Missing | Unreadable | Undecodable | Parsed json

text \<open>
  The dictionary \<^verbatim>\<open>json.load\<close> builds from an object: a repeated key keeps its first place
  and its last value.
\<close>

definition dict_of_object :: "(string \<times> json) list \<Rightarrow> state" where
  "dict_of_object kvs = foldl (\<lambda>d (k, v). AList.update k (Json v) d) [] kvs"

text \<open>
  \<^verbatim>\<open>_load_state\<close>. \<open>fromisoformat\<close> stands for \<^verbatim>\<open>datetime.fromisoformat\<close> of the standard
  library on strings: \<open>None\<close> is its \<^verbatim>\<open>ValueError\<close>. The \<^verbatim>\<open>except\<close> clause of line 56 catches
  \<^verbatim>\<open>FileNotFoundError\<close>, \<^verbatim>\<open>JSONDecodeError\<close> and \<^verbatim>\<open>ValueError\<close>, nothing else: \<^verbatim>\<open>data.get\<close> on a
  value that is not a dictionary raises \<^verbatim>\<open>AttributeError\<close>, and \<^verbatim>\<open>fromisoformat\<close> on a value
  that is not a string raises \<^verbatim>\<open>TypeError\<close>.
\<close>

definition last_check_text :: "state \<Rightarrow> py_error + string" where
  "last_check_text d =
     (case map_of d ''last_check'' of
        None \<Rightarrow> Inr ''2024-01-01''
      | Some (Json (JStr s)) \<Rightarrow> Inr s
      | Some v \<Rightarrow> Inl TypeError)"

definition load_state :: "(string \<Rightarrow> int option) \<Rightarrow> state_file \<Rightarrow> py_error + state" where
  "load_state fromisoformat f =
     (case f of
        Missing \<Rightarrow> Inr default_state
      | Unreadable \<Rightarrow> Inl OSError
      | Undecodable \<Rightarrow> Inr default_state
      | Parsed (JObj kvs) \<Rightarrow>
          (let d = dict_of_object kvs
           in case last_check_text d of
                Inl e \<Rightarrow> Inl e
              | Inr s \<Rightarrow>
                  (case fromisoformat s of
                     None \<Rightarrow> Inr default_state
                   | Some t \<Rightarrow> Inr (AList.update ''last_check'' (DateTime t) d)))
      | Parsed j \<Rightarrow> Inl AttributeError)"

text \<open>
  \<^verbatim>\<open>_save_state\<close> changes nothing in memory. It catches \<^verbatim>\<open>OSError\<close> only, so it raises when
  \<^verbatim>\<open>last_check\<close> is missing or not a \<^verbatim>\<open>datetime\<close>, and when \<^verbatim>\<open>json.dump\<close> meets another
  \<^verbatim>\<open>datetime\<close>. The file it writes is not part of the model.
\<close>

definition is_datetime :: "pyval \<Rightarrow> bool" where
  "is_datetime v = (case v of DateTime t \<Rightarrow> True | Json j \<Rightarrow> False)"

definition save_state :: "state \<Rightarrow> py_error option" where
  "save_state st =
     (case map_of st ''last_check'' of
        None \<Rightarrow> Some (KeyError ''last_check'')
      | Some (Json j) \<Rightarrow> Some AttributeError
      | Some (DateTime t) \<Rightarrow>
          (if list_ex (\<lambda>(k, v). k \<noteq> ''last_check'' \<and> is_datetime v) st then Some TypeError
           else None))"

subsection \<open>The update notifier (lines 73-133)\<close>

text \<open>
  The reply of the release endpoint: \<^verbatim>\<open>requests.get\<close> or \<^verbatim>\<open>response.json()\<close> raises an
  exception that line 90 catches (\<open>RequestFailed\<close>), or a response with its status code and
  the \<^verbatim>\<open>tag_name\<close> and \<^verbatim>\<open>html_url\<close> of its body (each a string, or missing).
\<close>

datatype release_response = RequestFailed | Response nat "string option" "string option"

definition text_or_empty :: "string option \<Rightarrow> string" where
  "text_or_empty s = (case s of None \<Rightarrow> [] | Some t \<Rightarrow> t)"

definition check_github_release :: "int \<Rightarrow> release_response \<Rightarrow> state \<Rightarrow> py_error option \<times> state" where
  "check_github_release now gh st =
     (let st1 =
            (case gh of
               RequestFailed \<Rightarrow> st
             | Response status_code tag_name html_url \<Rightarrow>
                 (if status_code = 200 then
                    (let new_version = dropWhile (\<lambda>c. c = CHR ''v'') (text_or_empty tag_name)
                     in case map_of st ''latest_version'' of
                          None \<Rightarrow> st
                        | Some old \<Rightarrow>
                            (let version_changed = (old \<noteq> Json (JStr new_version));
                                 st' = AList.update ''latest_version'' (Json (JStr new_version)) st;
                                 st'' = AList.update ''latest_url'' (Json (JStr (text_or_empty html_url))) st'
                             in if version_changed
                                then AList.update ''has_shown_notification'' (Json (JBool False)) st''
                                else st''))
                  else st));
          st2 = AList.update ''last_check'' (DateTime now) st1
      in (save_state st2, st2))"

text \<open>
  \<^verbatim>\<open>_get_update_notification\<close>. \<open>vparse\<close> stands for \<^verbatim>\<open>packaging.version.parse\<close> on strings,
  \<open>None\<close> being its \<^verbatim>\<open>InvalidVersion\<close> (a \<^verbatim>\<open>ValueError\<close>); on a value that is not a string it
  raises \<^verbatim>\<open>TypeError\<close>. Both are caught by line 109. When the stored version is newer,
  line 105 evaluates the f-string \<^verbatim>\<open>f"... {EXT_TITLE} Update Available! ..."\<close>: the name
  \<^verbatim>\<open>EXT_TITLE\<close> is an attribute of the class (line 38), not a local or global name of the
  method, so the lookup raises \<^verbatim>\<open>NameError\<close>, which line 109 does not catch.
\<close>

definition get_update_notification :: "(string \<Rightarrow> 'v::linorder option) \<Rightarrow> state \<Rightarrow> py_error + string" where
  "get_update_notification vparse st =
     (case map_of st ''latest_version'' of
        None \<Rightarrow> Inl (KeyError ''latest_version'')
      | Some v \<Rightarrow>
          (if \<not> truthy v then Inr []
           else (case v of
                   Json (JStr s) \<Rightarrow>
                     (case vparse s of
                        None \<Rightarrow> Inr []
                      | Some latest \<Rightarrow>
                          (case vparse CURRENT_VERSION of
                             None \<Rightarrow> Inr []
                           | Some current \<Rightarrow>
                               if current < latest then Inl (NameError ''EXT_TITLE'') else Inr []))
                 | other \<Rightarrow> Inr [])))"

text \<open>The \<^verbatim>\<open>user\<close> argument: not a dictionary, or a dictionary with its \<^verbatim>\<open>role\<close> (if any).\<close>

datatype user = NotADict | UserDict "string option"

definition hours_24 :: int where
  "hours_24 = 24 * 3600 * 1000000"

definition should_check_for_updates :: "valves \<Rightarrow> int \<Rightarrow> user \<Rightarrow> state \<Rightarrow> py_error + bool" where
  "should_check_for_updates V now u st =
     (if \<not> ENABLE_UPDATE_CHECK V then Inr False
      else if u \<noteq> UserDict (Some ''admin'') then Inr False
      else (case map_of st ''last_check'' of
              None \<Rightarrow> Inl (KeyError ''last_check'')
            | Some (Json j) \<Rightarrow> Inl TypeError
            | Some (DateTime t) \<Rightarrow> Inr (hours_24 \<le> now - t)))"

text \<open>
  \<^verbatim>\<open>_check_and_notify_updates\<close> returns the exception it raises (if any), the state
  afterwards (a mutation made before an exception stays) and the messages sent through
  \<^verbatim>\<open>event_emitter\<close>; \<open>event_emitter\<close> is whether the callback is there.
\<close>

definition notify ::
  "(string \<Rightarrow> 'v::linorder option) \<Rightarrow> bool \<Rightarrow> state \<Rightarrow> py_error option \<times> state \<times> string list" where
  "notify vparse event_emitter st =
     (case map_of st ''has_shown_notification'' of
        None \<Rightarrow> (Some (KeyError ''has_shown_notification''), st, [])
      | Some shown \<Rightarrow>
          (if \<not> truthy shown \<and> event_emitter then
             (case get_update_notification vparse st of
                Inl e \<Rightarrow> (Some e, st, [])
              | Inr notification \<Rightarrow>
                  (if notification \<noteq> [] then
                     (let st' = AList.update ''has_shown_notification'' (Json (JBool True)) st
                      in (save_state st', st', [notification]))
                   else (None, st, [])))
           else (None, st, [])))"

definition check_and_notify_updates ::
  "valves \<Rightarrow> (string \<Rightarrow> 'v::linorder option) \<Rightarrow> int \<Rightarrow> release_response \<Rightarrow> user \<Rightarrow> bool \<Rightarrow> state
     \<Rightarrow> py_error option \<times> state \<times> string list" where
  "check_and_notify_updates V vparse now gh u event_emitter st =
     (case should_check_for_updates V now u st of
        Inl e \<Rightarrow> (Some e, st, [])
      | Inr due \<Rightarrow>
          (case (if due then check_github_release now gh st else (None, st)) of
             (Some e, st1) \<Rightarrow> (Some e, st1, [])
           | (None, st1) \<Rightarrow> notify vparse event_emitter st1))"

text \<open>
  An instance of \<open>vparse\<close> for the evaluation of concrete cases: a plain release version
  \<^verbatim>\<open>N(.N)*\<close> is read as its numbers without the trailing zeros, which is the key
  \<^verbatim>\<open>packaging\<close> compares such versions by; lists are ordered lexicographically.
\<close>

fun split_dots :: "string \<Rightarrow> string list" where
  "split_dots [] = [[]]"
| "split_dots (c # cs) =
     (if c = CHR ''.'' then [] # split_dots cs
      else (case split_dots cs of [] \<Rightarrow> [[c]] | w # ws \<Rightarrow> (c # w) # ws))"

definition digit_value :: "char \<Rightarrow> nat option" where
  "digit_value c = (if CHR ''0'' \<le> c \<and> c \<le> CHR ''9'' then Some (of_char c - 48) else None)"

fun number_of :: "nat \<Rightarrow> string \<Rightarrow> nat option" where
  "number_of acc [] = Some acc"
| "number_of acc (c # cs) =
     (case digit_value c of None \<Rightarrow> None | Some d \<Rightarrow> number_of (10 * acc + d) cs)"

fun numbers_of :: "string list \<Rightarrow> nat list option" where
  "numbers_of [] = Some []"
| "numbers_of (w # ws) =
     (if w = [] then None
      else (case number_of 0 w of
              None \<Rightarrow> None
            | Some n \<Rightarrow> (case numbers_of ws of None \<Rightarrow> None | Some ns \<Rightarrow> Some (n # ns))))"

definition release_version :: "string \<Rightarrow> nat list option" where
  "release_version s =
     (case numbers_of (split_dots s) of
        None \<Rightarrow> None
      | Some ns \<Rightarrow> Some (rev (dropWhile (\<lambda>n. n = 0) (rev ns))))"

subsection \<open>The tools (lines 221-420)\<close>

text \<open>
  The instance: \<^verbatim>\<open>self.valves\<close>, \<^verbatim>\<open>self.cache\<close> and \<^verbatim>\<open>self.update_state\<close>. A tool returns its
  response and the instance afterwards. The three tools take \<^verbatim>\<open>__user__\<close> and no event
  emitter; their bodies read and write \<^verbatim>\<open>self.cache\<close> through \<^verbatim>\<open>_fetch_rates\<close> and nothing
  else of the instance.
\<close>

record tools =
  tool_valves :: valves
  tool_cache :: cache
  tool_update_state :: state

definition on_fetched ::
  "(rate_table \<Rightarrow> response) \<Rightarrow> tools \<Rightarrow> rat \<Rightarrow> fetch_outcome \<Rightarrow> response \<times> tools" where
  "on_fetched body T current_time net =
     (case fetch_rates (tool_valves T) current_time net (tool_cache T) of
        (r, c', n) \<Rightarrow>
          (let T' = T\<lparr>tool_cache := c'\<rparr>
           in case r of
                Inl e \<Rightarrow> (ErrorText e, T')
              | Inr PyNone \<Rightarrow> (ErrorText AttributeError, T')
              | Inr NotDict \<Rightarrow> (ErrorText AttributeError, T')
              | Inr (Table t) \<Rightarrow> (body t, T')))"

definition convert_currency ::
  "tools \<Rightarrow> rat \<Rightarrow> fetch_outcome \<Rightarrow> string \<Rightarrow> string option \<Rightarrow> rat \<Rightarrow> user \<Rightarrow> response \<times> tools" where
  "convert_currency T current_time net from_currency to_currency amount u =
     on_fetched (\<lambda>t. render (convert_on_table t from_currency to_currency amount)) T current_time net"

definition get_crypto_price ::
  "tools \<Rightarrow> rat \<Rightarrow> fetch_outcome \<Rightarrow> string \<Rightarrow> string \<Rightarrow> user \<Rightarrow> response \<times> tools" where
  "get_crypto_price T current_time net crypto currency u =
     convert_currency T current_time net crypto (Some currency) 1 u"

fun rows_of_three :: "'a list \<Rightarrow> 'a list list" where
  "rows_of_three (a # b # c # xs) = [a, b, c] # rows_of_three xs"
| "rows_of_three [] = []"
| "rows_of_three xs = [xs]"

definition is_crypto :: "string \<Rightarrow> bool" where
  "is_crypto c \<longleftrightarrow> c \<in> set crypto_currencies"

definition selection :: "string list \<Rightarrow> string option \<Rightarrow> (string list \<times> string) option" where
  "selection all_currencies filter_type =
     (case filter_type of
        None \<Rightarrow> Some (all_currencies, ''All Currencies'')
      | Some f \<Rightarrow>
          if f = [] then Some (all_currencies, ''All Currencies'')
          else if lower f = ''crypto'' then Some (filter is_crypto all_currencies, ''Cryptocurrencies'')
          else if lower f = ''fiat'' then
            Some (filter (\<lambda>c. \<not> is_crypto c) all_currencies, ''Fiat Currencies'')
          else None)"

definition listing :: "rate_table \<Rightarrow> string option \<Rightarrow> response" where
  "listing t filter_type =
     (case selection (base_of t # map fst (rates_of t)) filter_type of
        None \<Rightarrow> InvalidFilter
      | Some (currencies, title) \<Rightarrow>
          Listing title (length currencies)
            (sort (filter is_crypto currencies))
            (map sort (rows_of_three (filter (\<lambda>c. \<not> is_crypto c) currencies))))"

definition list_currencies ::
  "tools \<Rightarrow> rat \<Rightarrow> fetch_outcome \<Rightarrow> string option \<Rightarrow> user \<Rightarrow> response \<times> tools" where
  "list_currencies T current_time net filter_type u =
     on_fetched (\<lambda>t. listing t filter_type) T current_time net"

subsection \<open>The conversion rule in the specification's words\<close>

text \<open>
  The rule of the \<^verbatim>\<open>from == base\<close> case, the rule of the \<^verbatim>\<open>to == base\<close> case, and the cross
  pair as the second rule followed by the first.
\<close>

definition spec_from_base :: "(string \<times> rat) list \<Rightarrow> string \<Rightarrow> rat \<Rightarrow> py_error + rat" where
  "spec_from_base rates to_code v =
     and_then (lookup_rate rates to_code)
       (\<lambda>r. if to_code = ''BTC'' \<or> to_code = ''ETH'' \<or> to_code = ''SOL'' then py_div v r
            else Inr (v * r))"

definition spec_to_base :: "(string \<times> rat) list \<Rightarrow> string \<Rightarrow> rat \<Rightarrow> py_error + rat" where
  "spec_to_base rates from_code v =
     and_then (lookup_rate rates from_code)
       (\<lambda>r. if from_code = ''BTC'' \<or> from_code = ''ETH'' \<or> from_code = ''SOL'' then Inr (v * r)
            else py_div v r)"

definition spec_convert ::
  "(string \<times> rat) list \<Rightarrow> string \<Rightarrow> string \<Rightarrow> string \<Rightarrow> rat \<Rightarrow> py_error + rat" where
  "spec_convert rates base from_code to_code amount =
     (if from_code = base then spec_from_base rates to_code amount
      else if to_code = base then spec_to_base rates from_code amount
      else and_then (spec_to_base rates from_code amount) (spec_from_base rates to_code))"

subsection \<open>Concrete inputs\<close>

text \<open>
  \<open>initial_tools\<close> is the instance \<^verbatim>\<open>__init__\<close> builds when the state file is missing;
  \<open>example_table\<close> is a body of the rate endpoint in the documented shape.
\<close>

definition initial_tools :: tools where
  "initial_tools =
     \<lparr>tool_valves = default_valves, tool_cache = initial_cache, tool_update_state = default_state\<rparr>"

definition example_table :: rate_table where
  "example_table =
     \<lparr>tbl_base = Some ''USD'',
      tbl_rates = Some [(''EUR'', 9 / 10), (''BTC'', 50000), (''JPY'', 150)],
      tbl_updated = Some ''2024-05-01T00:00:00Z''\<rparr>"

definition newer_version_state :: state where
  "newer_version_state =
     [(''last_check'', DateTime datetime_2024_01_01),
      (''latest_version'', Json (JStr ''0.2.0'')),
      (''latest_url'', Json (JStr ''https://github.com/anvme/openwebui-live_currency_rate/releases/tag/v0.2.0'')),
      (''has_shown_notification'', Json (JBool False))]"

section \<open>Properties of the rate cache\<close>

lemma fetch_rates_valid:
  "cache_is_valid V t c \<Longrightarrow> fetch_rates V t net c = (Inr (data c), c, 0)"
  by (simp add: fetch_rates_def)

lemma fetch_rates_decoded:
  "\<not> cache_is_valid V t c \<Longrightarrow>
     fetch_rates V t (Decoded d) c = (Inr d, \<lparr>data = d, timestamp = t\<rparr>, 1)"
  by (simp add: fetch_rates_def)

lemma fetch_rates_raised_cached:
  "\<not> cache_is_valid V t c \<Longrightarrow> data c \<noteq> PyNone \<Longrightarrow>
     fetch_rates V t (Raised msg) c = (Inr (data c), c, 1)"
  by (simp add: fetch_rates_def)

lemma fetch_rates_raised_empty:
  "data c = PyNone \<Longrightarrow> fetch_rates V t (Raised msg) c = (Inl (FetchError msg), c, 1)"
  by (simp add: fetch_rates_def cache_is_valid_def)

lemma fetch_rates_fails_iff:
  "(\<exists>e. fst (fetch_rates V t net c) = Inl e) \<longleftrightarrow> (\<exists>m. net = Raised m) \<and> data c = PyNone"
  by (cases net) (auto simp: fetch_rates_def cache_is_valid_def)

lemma stale_not_valid:
  "data c = PyNone \<or> of_int (CACHE_DURATION V) \<le> t - timestamp c \<Longrightarrow> \<not> cache_is_valid V t c"
  by (auto simp: cache_is_valid_def)

lemma fetch_run_append:
  "fetch_run V c (xs @ ys) =
     (case fetch_run V c xs of
        (rs, c') \<Rightarrow> (case fetch_run V c' ys of (rs', c'') \<Rightarrow> (rs @ rs', c'')))"
  by (induction xs arbitrary: c) (auto split: prod.splits)

lemma fetch_run_all_failing:
  assumes cached: "data c \<noteq> PyNone"
    and calls: "\<forall>call \<in> set calls.
                  of_int (CACHE_DURATION V) \<le> fst call - timestamp c \<and> (\<exists>m. snd call = Raised m)"
  shows "fetch_run V c calls = (map (\<lambda>call. (Inr (data c), 1)) calls, c)"
  using calls
proof (induction calls)
  case Nil
  show ?case by simp
next
  case (Cons call calls)
  obtain t net where call: "call = (t, net)"
    by (cases call)
  from Cons.prems call obtain m where net: "net = Raised m"
    and stale: "of_int (CACHE_DURATION V) \<le> t - timestamp c"
    by auto
  from stale have "\<not> cache_is_valid V t c"
    by (simp add: cache_is_valid_def)
  then have "fetch_rates V t net c = (Inr (data c), c, 1)"
    using cached net by (simp add: fetch_rates_raised_cached)
  moreover have "fetch_run V c calls = (map (\<lambda>call. (Inr (data c), 1)) calls, c)"
    using Cons by simp
  ultimately show ?case
    by (simp add: call)
qed

text \<open>
  Claim C3. \<^verbatim>\<open>_fetch_rates\<close> raises exactly when the network step raises and the cache holds
  no data. When the network step raises and the cache holds data, the cached data is
  returned and the cache is left as it was; when the cache holds no data, the exception
  \<^verbatim>\<open>Failed to fetch currency rates: ...\<close> is raised. In particular a failing fetch after a
  fetch that stored the table \<open>d\<close> returns \<open>d\<close>, and the cache still holds \<open>d\<close> with the
  time of the first fetch.
\<close>

theorem fetch_rates_cache_fallback:
  "((\<exists>e. fst (fetch_rates V t net c) = Inl e) \<longleftrightarrow> (\<exists>m. net = Raised m) \<and> data c = PyNone)
   \<and> (data c \<noteq> PyNone \<longrightarrow>
        fst (fetch_rates V t (Raised msg) c) = Inr (data c)
        \<and> fst (snd (fetch_rates V t (Raised msg) c)) = c)
   \<and> (data c = PyNone \<longrightarrow> fst (fetch_rates V t (Raised msg) c) = Inl (FetchError msg))
   \<and> (d \<noteq> PyNone \<and> (data c = PyNone \<or> of_int (CACHE_DURATION V) \<le> t1 - timestamp c) \<longrightarrow>
        map fst (fst (fetch_run V c [(t1, Decoded d), (t2, Raised msg)])) = [Inr d, Inr d]
        \<and> snd (fetch_run V c [(t1, Decoded d), (t2, Raised msg)]) = \<lparr>data = d, timestamp = t1\<rparr>)"
proof -
  have cached: "data c \<noteq> PyNone \<longrightarrow>
      fst (fetch_rates V t (Raised msg) c) = Inr (data c)
      \<and> fst (snd (fetch_rates V t (Raised msg) c)) = c"
    by (simp add: fetch_rates_def)
  have empty: "data c = PyNone \<longrightarrow> fst (fetch_rates V t (Raised msg) c) = Inl (FetchError msg)"
    by (simp add: fetch_rates_raised_empty)
  have two: "map fst (fst (fetch_run V c [(t1, Decoded d), (t2, Raised msg)])) = [Inr d, Inr d]
      \<and> snd (fetch_run V c [(t1, Decoded d), (t2, Raised msg)]) = \<lparr>data = d, timestamp = t1\<rparr>"
    if d: "d \<noteq> PyNone" and stale: "data c = PyNone \<or> of_int (CACHE_DURATION V) \<le> t1 - timestamp c"
  proof -
    have first: "fetch_rates V t1 (Decoded d) c = (Inr d, \<lparr>data = d, timestamp = t1\<rparr>, 1)"
      using stale by (simp add: fetch_rates_decoded stale_not_valid)
    have second: "fst (fetch_rates V t2 (Raised msg) \<lparr>data = d, timestamp = t1\<rparr>) = Inr d
        \<and> fst (snd (fetch_rates V t2 (Raised msg) \<lparr>data = d, timestamp = t1\<rparr>)) = \<lparr>data = d, timestamp = t1\<rparr>"
      using d by (simp add: fetch_rates_def)
    show ?thesis
      using first second by (auto split: prod.splits)
  qed
  show ?thesis
    using fetch_rates_fails_iff [of V t net c] cached empty two by blast
qed

theorem fetch_rates_cache_fallback_witness:
  "fst (fetch_rates default_valves 1000 (Raised ''timeout'') initial_cache) = Inl (FetchError ''timeout'')
   \<and> fst (fetch_rates default_valves 2000 (Raised ''timeout'') \<lparr>data = Table example_table, timestamp = 1000\<rparr>)
       = Inr (Table example_table)
   \<and> map fst (fst (fetch_run default_valves initial_cache
         [(1000, Decoded (Table example_table)), (2000, Raised ''timeout'')]))
       = [Inr (Table example_table), Inr (Table example_table)]
   \<and> snd (fetch_run default_valves initial_cache
         [(1000, Decoded (Table example_table)), (2000, Raised ''timeout'')])
       = \<lparr>data = Table example_table, timestamp = 1000\<rparr>"
  using fetch_rates_cache_fallback [where V = default_valves and t = 1000 and msg = "''timeout''"
      and c = initial_cache and d = "Table example_table" and ?t1.0 = 1000 and ?t2.0 = 2000]
    fetch_rates_cache_fallback [where V = default_valves and t = 2000 and msg = "''timeout''"
      and c = "\<lparr>data = Table example_table, timestamp = 1000\<rparr>"]
  by (simp add: initial_cache_def)

text \<open>
  Claim C7. The default cache duration is 180 seconds. When the cache holds data whose age
  is strictly less than \<^verbatim>\<open>CACHE_DURATION\<close>, \<^verbatim>\<open>_fetch_rates\<close> returns the cached data, leaves the
  cache as it is and makes no network request. Hence, after a call that fetched the table
  \<open>d\<close> at time \<open>t1\<close>, a second call at \<open>t2\<close> makes no request when \<open>t2 - t1\<close> is less than the
  duration (one request in all) and one request otherwise; and of three calls, the second
  within the duration and the third after it, the first and the third fetch.
\<close>

theorem fetch_rates_fresh_cache:
  "CACHE_DURATION default_valves = 180
   \<and> (data c \<noteq> PyNone \<and> t - timestamp c < of_int (CACHE_DURATION V) \<longrightarrow>
        fetch_rates V t net c = (Inr (data c), c, 0))
   \<and> (d \<noteq> PyNone \<and> (data c = PyNone \<or> of_int (CACHE_DURATION V) \<le> t1 - timestamp c) \<longrightarrow>
        map snd (fst (fetch_run V c [(t1, Decoded d), (t2, net2)]))
          = [1, if t2 - t1 < of_int (CACHE_DURATION V) then 0 else 1])
   \<and> (d \<noteq> PyNone \<and> (data c = PyNone \<or> of_int (CACHE_DURATION V) \<le> t1 - timestamp c)
        \<and> t2 - t1 < of_int (CACHE_DURATION V) \<and> of_int (CACHE_DURATION V) \<le> t3 - t1 \<longrightarrow>
        map snd (fst (fetch_run V c [(t1, Decoded d), (t2, net2), (t3, net3)])) = [1, 0, 1])"
proof -
  have default: "CACHE_DURATION default_valves = 180"
    by (simp add: default_valves_def)
  have fresh: "data c \<noteq> PyNone \<and> t - timestamp c < of_int (CACHE_DURATION V) \<longrightarrow>
      fetch_rates V t net c = (Inr (data c), c, 0)"
    by (simp add: fetch_rates_def cache_is_valid_def)
  have requests: "snd (snd (fetch_rates V u net' \<lparr>data = d, timestamp = t1\<rparr>))
      = (if u - t1 < of_int (CACHE_DURATION V) then 0 else 1)"
    if "d \<noteq> PyNone" for u net'
    using that by (cases net') (simp_all add: fetch_rates_def cache_is_valid_def)
  have kept: "fst (snd (fetch_rates V u net' \<lparr>data = d, timestamp = t1\<rparr>)) = \<lparr>data = d, timestamp = t1\<rparr>"
    if "d \<noteq> PyNone" "u - t1 < of_int (CACHE_DURATION V)" for u net'
    using that by (simp add: fetch_rates_def cache_is_valid_def)
  have two: "map snd (fst (fetch_run V c [(t1, Decoded d), (t2, net2)]))
      = [1, if t2 - t1 < of_int (CACHE_DURATION V) then 0 else 1]"
    if d: "d \<noteq> PyNone" and stale: "data c = PyNone \<or> of_int (CACHE_DURATION V) \<le> t1 - timestamp c"
  proof -
    have first: "fetch_rates V t1 (Decoded d) c = (Inr d, \<lparr>data = d, timestamp = t1\<rparr>, 1)"
      using stale by (simp add: fetch_rates_decoded stale_not_valid)
    show ?thesis
      using first requests [OF d, of t2 net2] by (auto split: prod.splits)
  qed
  have three: "map snd (fst (fetch_run V c [(t1, Decoded d), (t2, net2), (t3, net3)])) = [1, 0, 1]"
    if d: "d \<noteq> PyNone" and stale: "data c = PyNone \<or> of_int (CACHE_DURATION V) \<le> t1 - timestamp c"
      and within: "t2 - t1 < of_int (CACHE_DURATION V)" and after: "of_int (CACHE_DURATION V) \<le> t3 - t1"
  proof -
    have first: "fetch_rates V t1 (Decoded d) c = (Inr d, \<lparr>data = d, timestamp = t1\<rparr>, 1)"
      using stale by (simp add: fetch_rates_decoded stale_not_valid)
    have second: "fetch_rates V t2 net2 \<lparr>data = d, timestamp = t1\<rparr>
        = (Inr d, \<lparr>data = d, timestamp = t1\<rparr>, 0)"
      using d within by (simp add: fetch_rates_def cache_is_valid_def)
    show ?thesis
      using first second requests [OF d, of t3 net3] after by (auto split: prod.splits)
  qed
  show ?thesis
    using default fresh two three by blast
qed

theorem fetch_rates_fresh_cache_witness:
  "fetch_rates default_valves 1179 (Raised ''offline'') \<lparr>data = Table example_table, timestamp = 1000\<rparr>
     = (Inr (Table example_table), \<lparr>data = Table example_table, timestamp = 1000\<rparr>, 0)
   \<and> map snd (fst (fetch_run default_valves initial_cache
         [(1000, Decoded (Table example_table)), (1179, Decoded NotDict)])) = [1, 0]
   \<and> map snd (fst (fetch_run default_valves initial_cache
         [(1000, Decoded (Table example_table)), (1179, Decoded NotDict), (1180, Decoded NotDict)]))
       = [1, 0, 1]"
  using fetch_rates_fresh_cache [where V = default_valves and t = 1179 and net = "Raised ''offline''"
      and c = "\<lparr>data = Table example_table, timestamp = 1000\<rparr>"]
    fetch_rates_fresh_cache [where V = default_valves and c = initial_cache
      and d = "Table example_table" and ?t1.0 = 1000 and ?t2.0 = 1179 and ?t3.0 = 1180
      and ?net2.0 = "Decoded NotDict" and ?net3.0 = "Decoded NotDict"]
  by (simp add: initial_cache_def default_valves_def)

text \<open>
  Claim C10. When the cached data is stale and the network step raises, the cached data is
  served and the cache, its timestamp included, is left as it was. So a run of calls that
  all come \<^verbatim>\<open>CACHE_DURATION\<close> or more after the cache's timestamp and all fail makes one
  network request per call and ends with the same cache; the first call of that kind that
  succeeds stores the new data with its own time.
\<close>

theorem stale_fallback_keeps_timestamp:
  "(data c \<noteq> PyNone \<and> of_int (CACHE_DURATION V) \<le> t - timestamp c \<longrightarrow>
      fetch_rates V t (Raised msg) c = (Inr (data c), c, 1))
   \<and> (data c \<noteq> PyNone
        \<and> (\<forall>call \<in> set calls.
              of_int (CACHE_DURATION V) \<le> fst call - timestamp c \<and> (\<exists>m. snd call = Raised m)) \<longrightarrow>
        fetch_run V c calls = (map (\<lambda>call. (Inr (data c), 1)) calls, c))
   \<and> (data c \<noteq> PyNone
        \<and> (\<forall>call \<in> set calls.
              of_int (CACHE_DURATION V) \<le> fst call - timestamp c \<and> (\<exists>m. snd call = Raised m))
        \<and> of_int (CACHE_DURATION V) \<le> t - timestamp c \<longrightarrow>
        fetch_run V c (calls @ [(t, Decoded d)])
          = (map (\<lambda>call. (Inr (data c), 1)) calls @ [(Inr d, 1)], \<lparr>data = d, timestamp = t\<rparr>))"
proof -
  have one: "data c \<noteq> PyNone \<and> of_int (CACHE_DURATION V) \<le> t - timestamp c \<longrightarrow>
      fetch_rates V t (Raised msg) c = (Inr (data c), c, 1)"
    by (simp add: fetch_rates_raised_cached stale_not_valid)
  have run: "fetch_run V c calls = (map (\<lambda>call. (Inr (data c), 1)) calls, c)"
    if "data c \<noteq> PyNone"
      and "\<forall>call \<in> set calls.
             of_int (CACHE_DURATION V) \<le> fst call - timestamp c \<and> (\<exists>m. snd call = Raised m)"
    using that by (rule fetch_run_all_failing)
  have until: "fetch_run V c (calls @ [(t, Decoded d)])
      = (map (\<lambda>call. (Inr (data c), 1)) calls @ [(Inr d, 1)], \<lparr>data = d, timestamp = t\<rparr>)"
    if cached: "data c \<noteq> PyNone"
      and failing: "\<forall>call \<in> set calls.
             of_int (CACHE_DURATION V) \<le> fst call - timestamp c \<and> (\<exists>m. snd call = Raised m)"
      and stale: "of_int (CACHE_DURATION V) \<le> t - timestamp c"
  proof -
    have "fetch_rates V t (Decoded d) c = (Inr d, \<lparr>data = d, timestamp = t\<rparr>, 1)"
      using stale by (simp add: fetch_rates_decoded stale_not_valid)
    then show ?thesis
      by (simp add: fetch_run_append run [OF cached failing])
  qed
  show ?thesis
    using one run until by blast
qed

theorem stale_fallback_keeps_timestamp_witness:
  "fetch_run default_valves \<lparr>data = Table example_table, timestamp = 1000\<rparr>
      [(1180, Raised ''offline''), (1181, Raised ''offline''), (5000, Raised ''offline'')]
     = ([(Inr (Table example_table), 1), (Inr (Table example_table), 1), (Inr (Table example_table), 1)],
        \<lparr>data = Table example_table, timestamp = 1000\<rparr>)
   \<and> fetch_run default_valves \<lparr>data = Table example_table, timestamp = 1000\<rparr>
      ([(1180, Raised ''offline''), (1181, Raised ''offline'')] @ [(5000, Decoded NotDict)])
     = ([(Inr (Table example_table), 1), (Inr (Table example_table), 1), (Inr NotDict, 1)],
        \<lparr>data = NotDict, timestamp = 5000\<rparr>)"
  using stale_fallback_keeps_timestamp [where V = default_valves
      and c = "\<lparr>data = Table example_table, timestamp = 1000\<rparr>"
      and calls = "[(1180, Raised ''offline''), (1181, Raised ''offline''), (5000, Raised ''offline'')]"]
    stale_fallback_keeps_timestamp [where V = default_valves
      and c = "\<lparr>data = Table example_table, timestamp = 1000\<rparr>" and t = 5000 and d = NotDict
      and calls = "[(1180, Raised ''offline''), (1181, Raised ''offline'')]"]
  by (simp add: default_valves_def)

section \<open>Properties of the conversion engine\<close>

lemma is_crypto_code:
  "c \<in> set crypto_currencies \<longleftrightarrow> c = ''BTC'' \<or> c = ''ETH'' \<or> c = ''SOL''"
  by (auto simp: crypto_currencies_def)

lemma conversion_result_spec:
  "conversion_result rates base f t a = spec_convert rates base f t a"
  by (simp add: conversion_result_def spec_convert_def spec_from_base_def spec_to_base_def
      is_crypto_code and_then_def Let_def split: sum.splits)

lemma and_then_Inr:
  "and_then (Inr v) f = f v"
  by (simp add: and_then_def)

lemma and_then_Inl:
  "and_then (Inl e) f = Inl e"
  by (simp add: and_then_def)

lemma lookup_rate_Some:
  "map_of rates code = Some r \<Longrightarrow> lookup_rate rates code = Inr r"
  by (simp add: lookup_rate_def)

lemma identity_non_base:
  assumes "x \<noteq> base" and "map_of rates x = Some r" and "r \<noteq> 0"
  shows "conversion_result rates base x x a = Inr a"
  using assms
  by (simp add: conversion_result_def lookup_rate_Some and_then_def py_div_def Let_def)

text \<open>
  Claim C1. For codes that each equal the base or are a key of \<^verbatim>\<open>rates\<close>, the result of lines
  276-309 is the result of the three cases of the specification: from the base, divide by
  \<^verbatim>\<open>rates[to]\<close> for a crypto target and multiply otherwise; to the base, multiply by
  \<^verbatim>\<open>rates[from]\<close> for a crypto source and divide otherwise; for any other pair, the second
  rule followed by the first. A rate that is looked up and missing raises \<^verbatim>\<open>KeyError\<close> and a
  division by a zero rate raises \<^verbatim>\<open>ZeroDivisionError\<close>, on both sides alike. The three cases
  are also given with the looked-up rates \<open>rf\<close> and \<open>rt\<close> written out.
\<close>

theorem conversion_three_cases:
  "(known_code rates base f \<and> known_code rates base t \<longrightarrow>
      conversion_result rates base f t a = spec_convert rates base f t a)
   \<and> (f = base \<and> map_of rates t = Some rt \<longrightarrow>
        conversion_result rates base f t a
          = (if t \<in> {''BTC'', ''ETH'', ''SOL''} then py_div a rt else Inr (a * rt)))
   \<and> (f \<noteq> base \<and> t = base \<and> map_of rates f = Some rf \<longrightarrow>
        conversion_result rates base f t a
          = (if f \<in> {''BTC'', ''ETH'', ''SOL''} then Inr (a * rf) else py_div a rf))
   \<and> (f \<noteq> base \<and> t \<noteq> base \<and> map_of rates f = Some rf \<and> map_of rates t = Some rt \<longrightarrow>
        conversion_result rates base f t a
          = and_then (if f \<in> {''BTC'', ''ETH'', ''SOL''} then Inr (a * rf) else py_div a rf)
              (\<lambda>v. if t \<in> {''BTC'', ''ETH'', ''SOL''} then py_div v rt else Inr (v * rt)))"
proof -
  have from_base: "conversion_result rates base f t a
      = (if t \<in> {''BTC'', ''ETH'', ''SOL''} then py_div a rt else Inr (a * rt))"
    if "f = base" and t: "map_of rates t = Some rt"
    unfolding conversion_result_def Let_def lookup_rate_Some [OF t]
    using that by (simp add: and_then_def is_crypto_code)
  have to_base: "conversion_result rates base f t a
      = (if f \<in> {''BTC'', ''ETH'', ''SOL''} then Inr (a * rf) else py_div a rf)"
    if "f \<noteq> base" "t = base" and f: "map_of rates f = Some rf"
    unfolding conversion_result_def Let_def lookup_rate_Some [OF f]
    using that by (simp add: and_then_def is_crypto_code)
  have cross: "conversion_result rates base f t a
      = and_then (if f \<in> {''BTC'', ''ETH'', ''SOL''} then Inr (a * rf) else py_div a rf)
          (\<lambda>v. if t \<in> {''BTC'', ''ETH'', ''SOL''} then py_div v rt else Inr (v * rt))"
    if "f \<noteq> base" "t \<noteq> base" and f: "map_of rates f = Some rf" and t: "map_of rates t = Some rt"
    unfolding conversion_result_def Let_def lookup_rate_Some [OF f] lookup_rate_Some [OF t]
      and_then_Inr
    using that by (simp add: and_then_def is_crypto_code split: sum.splits)
  show ?thesis
    using conversion_result_spec [of rates base f t a] from_base to_base cross by blast
qed

theorem conversion_three_cases_witness:
  "conversion_result (rates_of example_table) ''USD'' ''USD'' ''EUR'' 10 = Inr 9
   \<and> conversion_result (rates_of example_table) ''USD'' ''USD'' ''BTC'' 100 = Inr (1 / 500)
   \<and> conversion_result (rates_of example_table) ''USD'' ''BTC'' ''USD'' 2 = Inr 100000
   \<and> conversion_result (rates_of example_table) ''USD'' ''JPY'' ''USD'' 300 = Inr 2
   \<and> conversion_result (rates_of example_table) ''USD'' ''EUR'' ''BTC'' 90 = Inr (1 / 500)
   \<and> conversion_result (rates_of example_table) ''USD'' ''BTC'' ''JPY'' 2 = Inr 15000000
   \<and> spec_convert (rates_of example_table) ''USD'' ''EUR'' ''JPY'' 9 = Inr 1500"
  using conversion_three_cases [where rates = "rates_of example_table" and base = "''USD''"
      and f = "''USD''" and t = "''EUR''" and a = 10 and rt = "9 / 10"]
    conversion_three_cases [where rates = "rates_of example_table" and base = "''USD''"
      and f = "''USD''" and t = "''BTC''" and a = 100 and rt = 50000]
    conversion_three_cases [where rates = "rates_of example_table" and base = "''USD''"
      and f = "''BTC''" and t = "''USD''" and a = 2 and rf = 50000]
    conversion_three_cases [where rates = "rates_of example_table" and base = "''USD''"
      and f = "''JPY''" and t = "''USD''" and a = 300 and rf = 150]
    conversion_three_cases [where rates = "rates_of example_table" and base = "''USD''"
      and f = "''EUR''" and t = "''BTC''" and a = 90 and rf = "9 / 10" and rt = 50000]
    conversion_three_cases [where rates = "rates_of example_table" and base = "''USD''"
      and f = "''BTC''" and t = "''JPY''" and a = 2 and rf = 50000 and rt = 150]
    conversion_three_cases [where rates = "rates_of example_table" and base = "''USD''"
      and f = "''EUR''" and t = "''JPY''" and a = 9 and rf = "9 / 10" and rt = 150]
  by (simp add: rates_of_def example_table_def known_code_def py_div_def and_then_def
      spec_convert_def spec_from_base_def spec_to_base_def lookup_rate_def)

text \<open>
  Claim C2 (the identity conversion). For a code other than the base with a rate that is
  not zero the result is the amount (lemma \<open>identity_non_base\<close>, in exact arithmetic). For
  the base itself line 276 takes the \<^verbatim>\<open>from == base\<close> branch and looks up \<^verbatim>\<open>rates[base]\<close>; the
  base is not a key of \<^verbatim>\<open>rates\<close>, so the lookup raises \<^verbatim>\<open>KeyError\<close> and the tool returns the
  error text, also when the target is left out and defaults to the base (line 256).
\<close>

theorem identity_on_base_raises:
  "conversion_result (rates_of example_table) (base_of example_table) ''USD'' ''USD'' 5
     = Inl (KeyError ''USD'')
   \<and> fst (convert_currency initial_tools 1000 (Decoded (Table example_table)) ''USD'' (Some ''USD'') 5
        NotADict) = ErrorText (KeyError ''USD'')
   \<and> fst (convert_currency initial_tools 1000 (Decoded (Table example_table)) ''usd'' None 5
        NotADict) = ErrorText (KeyError ''USD'')
   \<and> conversion_result (rates_of example_table) (base_of example_table) ''EUR'' ''EUR'' 5 = Inr 5
   \<and> conversion_result (rates_of example_table) (base_of example_table) ''BTC'' ''BTC'' 5 = Inr 5"
  by code_simp

lemma convert_zero_not_converted:
  "convert rates base f t 0 \<noteq> Converted f' t' a r q"
  by (simp add: convert_def py_div_def split: sum.splits)

lemma render_conversion:
  "render out = Conversion a b c d e \<Longrightarrow> \<exists>f t x r q. out = Converted f t x r q"
  by (cases out) (simp_all add: render_def)

lemma convert_currency_zero:
  "fst (convert_currency T now net f target 0 u) \<noteq> Conversion a b c d e"
proof
  assume shown: "fst (convert_currency T now net f target 0 u) = Conversion a b c d e"
  obtain r c' n where fetched: "fetch_rates (tool_valves T) now net (tool_cache T) = (r, c', n)"
    by (cases "fetch_rates (tool_valves T) now net (tool_cache T)")
  from shown fetched obtain tbl where
    "render (convert_on_table tbl f target 0) = Conversion a b c d e"
    by (auto simp: convert_currency_def on_fetched_def Let_def split: sum.splits payload.splits)
  then obtain f' t' x r' q where "convert_on_table tbl f target 0 = Converted f' t' x r' q"
    using render_conversion by blast
  then show False
    by (simp add: convert_on_table_def Let_def convert_zero_not_converted)
qed

text \<open>
  Claim C4, as stated, fails: with the amount 0 and two known codes the conversion is not
  displayed. \<^verbatim>\<open>result\<close> is 0, line 312 evaluates \<^verbatim>\<open>result / amount\<close>, which raises
  \<^verbatim>\<open>ZeroDivisionError\<close>, and the handler of line 341 returns the error text.
\<close>

theorem zero_amount_counterexample:
  "fst (convert_currency initial_tools 1000 (Decoded (Table example_table)) ''USD'' (Some ''EUR'') 0
     NotADict) = ErrorText ZeroDivisionError"
  by code_simp

text \<open>
  Claim C4, as the code has it. With the amount 0 no conversion is displayed: where the
  codes are known and the result computes, line 312 divides by the amount, the division
  raises \<^verbatim>\<open>ZeroDivisionError\<close> and the handler of line 341 returns the error text. No other
  amount is refused: for known codes and any amount other than 0, negative ones included,
  the outcome carries the result and the rate \<^verbatim>\<open>result / amount\<close>.
\<close>

theorem zero_amount_is_an_error:
  "(\<forall>a b c d e. fst (convert_currency T now net f target 0 u) \<noteq> Conversion a b c d e)
   \<and> (known_code rates base f \<and> known_code rates base t
        \<and> conversion_result rates base f t 0 = Inr r \<longrightarrow>
        convert rates base f t 0 = Failed ZeroDivisionError)
   \<and> (amount \<noteq> 0 \<and> known_code rates base f \<and> known_code rates base t
        \<and> conversion_result rates base f t amount = Inr r \<longrightarrow>
        convert rates base f t amount = Converted f t amount r (r / amount))"
  by (simp add: convert_currency_zero convert_def py_div_def)

theorem zero_amount_is_an_error_witness:
  "convert (rates_of example_table) ''USD'' ''USD'' ''EUR'' 0 = Failed ZeroDivisionError
   \<and> convert (rates_of example_table) ''USD'' ''USD'' ''EUR'' (- 10)
       = Converted ''USD'' ''EUR'' (- 10) (- 9) (9 / 10)
   \<and> convert (rates_of example_table) ''USD'' ''BTC'' ''JPY'' (- 2)
       = Converted ''BTC'' ''JPY'' (- 2) (- 15000000) 7500000"
  using zero_amount_is_an_error [where rates = "rates_of example_table" and base = "''USD''"
      and f = "''USD''" and t = "''EUR''" and r = 0]
    zero_amount_is_an_error [where rates = "rates_of example_table" and base = "''USD''"
      and f = "''USD''" and t = "''EUR''" and amount = "- 10" and r = "- 9"]
    zero_amount_is_an_error [where rates = "rates_of example_table" and base = "''USD''"
      and f = "''BTC''" and t = "''JPY''" and amount = "- 2" and r = "- 15000000"]
  by (simp add: rates_of_def example_table_def known_code_def conversion_result_def
      crypto_currencies_def lookup_rate_def and_then_def py_div_def)

section \<open>Properties of the formatter\<close>

declare digits_of.simps [simp del]

lemma digit_char_digit:
  "d < 10 \<Longrightarrow> digit_char d \<in> set ''0123456789''"
  unfolding digit_char_def by (rule nth_mem) simp

lemma digits_of_digits:
  "set (digits_of n) \<subseteq> set ''0123456789''"
proof (induction n rule: digits_of.induct)
  case (1 n)
  show ?case
  proof (cases "n < 10")
    case True
    then show ?thesis
      using digit_char_digit [of n] by (subst digits_of.simps) simp
  next
    case False
    have "digit_char (n mod 10) \<in> set ''0123456789''"
      by (rule digit_char_digit) simp
    with False 1 show ?thesis
      by (subst digits_of.simps) simp
  qed
qed

lemma point_not_in_digits:
  "CHR ''.'' \<notin> set (digits_of n)"
  using digits_of_digits [of n] by auto

lemma commas_rev_chars:
  "set (commas_rev xs) \<subseteq> insert CHR '','' (set xs)"
  by (induction xs rule: commas_rev.induct) auto

lemma point_not_in_group:
  "CHR ''.'' \<notin> set s \<Longrightarrow> CHR ''.'' \<notin> set (group_thousands s)"
  using commas_rev_chars [of "rev s"] by (auto simp: group_thousands_def)

lemma point_not_in_pad:
  "CHR ''.'' \<notin> set s \<Longrightarrow> CHR ''.'' \<notin> set (zero_pad n s)"
  by (auto simp: zero_pad_def)

lemma count_points_format_fixed:
  "count_list (format_fixed n x) CHR ''.'' \<le> 1"
proof -
  have "count_list (group_thousands (digits_of k)) CHR ''.'' = 0" for k
    by (simp add: point_not_in_group point_not_in_digits)
  moreover have "count_list (zero_pad n (digits_of k)) CHR ''.'' = 0" for k
    by (simp add: point_not_in_pad point_not_in_digits)
  ultimately show ?thesis
    by (simp add: format_fixed_def Let_def)
qed

lemma count_list_dropWhile:
  "count_list (dropWhile P xs) c \<le> count_list xs c"
  by (induction xs) auto

lemma drop_points_once:
  assumes "count_list u CHR ''.'' \<le> 1"
  shows "dropWhile (\<lambda>x. x = CHR ''.'') u = (if u \<noteq> [] \<and> hd u = CHR ''.'' then tl u else u)"
proof (cases u)
  case Nil
  then show ?thesis by simp
next
  case (Cons a v)
  show ?thesis
  proof (cases "a = CHR ''.''")
    case False
    with Cons show ?thesis by simp
  next
    case True
    with Cons assms have "count_list v CHR ''.'' = 0"
      by simp
    then have "CHR ''.'' \<notin> set v"
      by (simp add: count_list_0_iff)
    then have "dropWhile (\<lambda>x. x = CHR ''.'') v = v"
      by (cases v) auto
    with Cons True show ?thesis by simp
  qed
qed

lemma strip_as_specified:
  assumes "count_list s CHR ''.'' \<le> 1"
  shows "rstrip CHR ''.'' (rstrip CHR ''0'' s) = spec_strip s"
proof -
  define u where "u = dropWhile (\<lambda>x. x = CHR ''0'') (rev s)"
  have "count_list u CHR ''.'' \<le> count_list (rev s) CHR ''.''"
    unfolding u_def by (rule count_list_dropWhile)
  with assms have u: "count_list u CHR ''.'' \<le> 1"
    by simp
  have left: "rstrip CHR ''.'' (rstrip CHR ''0'' s) = rev (dropWhile (\<lambda>x. x = CHR ''.'') u)"
    by (simp add: rstrip_def u_def)
  have right: "spec_strip s = rev (if u \<noteq> [] \<and> hd u = CHR ''.'' then tl u else u)"
  proof (cases u)
    case Nil
    then show ?thesis
      by (simp add: spec_strip_def u_def [symmetric])
  next
    case (Cons a v)
    then show ?thesis
      by (simp add: spec_strip_def u_def [symmetric] Let_def butlast_append)
  qed
  show ?thesis
    by (simp add: left right drop_points_once [OF u])
qed

lemma format_amount_spec:
  "format_amount amount code = spec_format amount code"
  by (simp add: format_amount_def spec_format_def is_crypto_code
      strip_as_specified [OF count_points_format_fixed])

lemma floor_divide_numeral_rat:
  "\<lfloor>numeral a / numeral b :: rat\<rfloor> = numeral a div numeral b"
  by (metis floor_divide_of_int_eq of_int_numeral)

lemmas format_unfold = format_amount_def format_fixed_def round_half_even_def Let_def

lemmas format_eval = floor_divide_numeral_rat digits_of.simps digit_char_def
  group_thousands_def zero_pad_def rstrip_def crypto_currencies_def

text \<open>The digits \<open>digits_of\<close> prints read back as the number, without a leading zero.\<close>

lemma ten_cases:
  "d < 10 \<Longrightarrow> d \<in> {0, 1, 2, 3, 4, 5, 6, 7, 8, 9 :: nat}"
  by auto

lemma digit_of_digit_char:
  "d < 10 \<Longrightarrow> digit_of (digit_char d) = d"
  using ten_cases [of d] by (auto simp: digit_of_def digit_char_def)

lemma is_digit_digit_char:
  "d < 10 \<Longrightarrow> is_digit (digit_char d)"
  using ten_cases [of d] by (auto simp: is_digit_def digit_char_def less_eq_char_def)

lemma digit_char_zero:
  "d < 10 \<Longrightarrow> digit_char d = CHR ''0'' \<longleftrightarrow> d = 0"
  using ten_cases [of d] by (auto simp: digit_char_def)

lemma read_nat_snoc:
  "read_nat (s @ [c]) = 10 * read_nat s + digit_of c"
  by (simp add: read_nat_def)

lemma digits_of_nonempty:
  "digits_of k \<noteq> []"
  by (subst digits_of.simps) simp

lemma read_nat_digits_of:
  "read_nat (digits_of k) = k"
proof (induction k rule: digits_of.induct)
  case (1 n)
  show ?case
  proof (cases "n < 10")
    case True
    then show ?thesis
      by (subst digits_of.simps) (simp add: read_nat_def digit_of_digit_char)
  next
    case False
    with 1 have "read_nat (digits_of (n div 10)) = n div 10"
      by simp
    with False show ?thesis
      by (subst digits_of.simps) (simp add: read_nat_snoc digit_of_digit_char)
  qed
qed

lemma all_digits_digits_of:
  "list_all is_digit (digits_of k)"
proof (induction k rule: digits_of.induct)
  case (1 n)
  show ?case
  proof (cases "n < 10")
    case True
    then show ?thesis
      by (subst digits_of.simps) (simp add: is_digit_digit_char)
  next
    case False
    with 1 show ?thesis
      by (subst digits_of.simps) (simp add: is_digit_digit_char)
  qed
qed

lemma hd_digits_of:
  "0 < k \<Longrightarrow> hd (digits_of k) \<noteq> CHR ''0''"
proof (induction k rule: digits_of.induct)
  case (1 n)
  show ?case
  proof (cases "n < 10")
    case True
    with 1(2) show ?thesis
      by (subst digits_of.simps) (simp add: digit_char_zero)
  next
    case False
    then have "0 < n div 10"
      by simp
    with 1 False have "hd (digits_of (n div 10)) \<noteq> CHR ''0''"
      by simp
    with False show ?thesis
      by (subst digits_of.simps) (simp add: digits_of_nonempty)
  qed
qed

lemma digits_of_zero:
  "digits_of 0 = ''0''"
  by (subst digits_of.simps) (simp add: digit_char_def)

lemma decimal_of_digits_of:
  "decimal_of (digits_of k) k"
proof (cases "k = 0")
  case True
  then show ?thesis
    by (simp add: decimal_of_def digits_of_zero read_nat_def digit_of_def is_digit_def less_eq_char_def)
next
  case False
  then show ?thesis
    by (simp add: decimal_of_def digits_of_nonempty all_digits_digits_of read_nat_digits_of
        hd_digits_of)
qed

text \<open>\<open>round_half_even\<close> is the nearest natural number, the even one on a tie; the fraction is padded to \<open>n\<close> digits.\<close>

lemma round_half_even_nearest:
  assumes "0 \<le> q"
  shows "0 \<le> round_half_even q"
    and "rounded_half_even q (nat (round_half_even q))"
proof -
  define f where "f = \<lfloor>q\<rfloor>"
  define d where "d = q - of_int f"
  define r where "r = round_half_even q"
  have f0: "0 \<le> f"
    using assms by (simp add: f_def)
  have d0: "0 \<le> d" and d1: "d < 1"
    unfolding d_def f_def by linarith+
  have r: "r = (if d < 1 / 2 then f else if 1 / 2 < d then f + 1 else if even f then f else f + 1)"
    by (simp add: r_def round_half_even_def Let_def f_def d_def)
  have nonneg: "0 \<le> r"
    using f0 by (simp add: r)
  have near: "\<bar>of_int r - q\<bar> < 1 / 2 \<or> (\<bar>of_int r - q\<bar> = 1 / 2 \<and> even r)"
  proof (cases "d < 1 / 2")
    case True
    then have "r = f"
      by (simp add: r)
    then have "of_int r - q = - d"
      by (simp add: d_def)
    with True d0 show ?thesis
      by simp
  next
    case False
    show ?thesis
    proof (cases "1 / 2 < d")
      case True
      then have "r = f + 1"
        by (simp add: r)
      then have "of_int r - q = 1 - d"
        by (simp add: d_def)
      with True d1 show ?thesis
        by simp
    next
      case half: False
      with False have d: "d = 1 / 2"
        by simp
      then have "even r"
        by (simp add: r)
      moreover have "r = f \<or> r = f + 1"
        by (simp add: r)
      then have "of_int r - q = - d \<or> of_int r - q = 1 - d"
        by (auto simp: d_def)
      then have "\<bar>of_int r - q\<bar> = 1 / 2"
        by (auto simp: d)
      ultimately show ?thesis
        by simp
    qed
  qed
  show "0 \<le> round_half_even q"
    using nonneg by (simp add: r_def)
  show "rounded_half_even q (nat (round_half_even q))"
    using near nonneg by (simp add: rounded_half_even_def even_nat_iff r_def)
qed

lemma length_digits_of:
  "0 < n \<Longrightarrow> k < 10 ^ n \<Longrightarrow> length (digits_of k) \<le> n"
proof (induction k arbitrary: n rule: digits_of.induct)
  case (1 k)
  show ?case
  proof (cases "k < 10")
    case True
    with 1(2) show ?thesis
      by (subst digits_of.simps) simp
  next
    case False
    obtain m where n: "n = Suc m"
      using 1(2) by (cases n) auto
    from False 1(3) n have m: "0 < m"
      by (cases m) auto
    from 1(3) n have "k div 10 < 10 ^ m"
      by (simp add: less_mult_imp_div_less mult.commute)
    with 1(1) False m have "length (digits_of (k div 10)) \<le> m"
      by simp
    with False n show ?thesis
      by (subst digits_of.simps) simp
  qed
qed

lemma read_nat_zeros:
  "read_nat (replicate m CHR ''0'' @ s) = read_nat s"
  by (induction m) (simp_all add: read_nat_def digit_of_def)

lemma zero_pad_fraction:
  assumes "0 < n" and "k < 10 ^ n"
  shows "length (zero_pad n (digits_of k)) = n"
    and "list_all is_digit (zero_pad n (digits_of k))"
    and "read_nat (zero_pad n (digits_of k)) = k"
proof -
  have "length (digits_of k) \<le> n"
    using assms by (rule length_digits_of)
  then show "length (zero_pad n (digits_of k)) = n"
    by (simp add: zero_pad_def)
  have "is_digit CHR ''0''"
    by (simp add: is_digit_def less_eq_char_def)
  then show "list_all is_digit (zero_pad n (digits_of k))"
    using all_digits_digits_of [of k] by (auto simp: zero_pad_def list_all_iff)
  show "read_nat (zero_pad n (digits_of k)) = k"
    by (simp add: zero_pad_def read_nat_zeros read_nat_digits_of)
qed

text \<open>\<open>group_thousands\<close> inserts commas only, one after every third digit from the right.\<close>

lemma filter_commas_rev:
  "CHR '','' \<notin> set xs \<Longrightarrow> filter (\<lambda>c. c \<noteq> CHR '','') (commas_rev xs) = xs"
  by (induction xs rule: commas_rev.induct) auto

lemma commas_rev_empty:
  "commas_rev xs = [] \<longleftrightarrow> xs = []"
  by (induction xs rule: commas_rev.induct) auto

lemma last_commas_rev:
  "xs \<noteq> [] \<Longrightarrow> last (commas_rev xs) = last xs"
  by (induction xs rule: commas_rev.induct) (auto simp: commas_rev_empty)

lemma nth_after_group:
  "(a # b # c # s # ys) ! Suc (Suc (Suc (Suc j))) = ys ! j"
  by simp

lemma mod_four_shift:
  "Suc (Suc (Suc (Suc j))) mod 4 = j mod 4"
proof -
  have "Suc (Suc (Suc (Suc j))) = j + 4"
    by simp
  then show ?thesis
    by (metis mod_add_self2)
qed

lemma commas_rev_positions:
  "CHR '','' \<notin> set xs \<Longrightarrow> i < length (commas_rev xs) \<Longrightarrow>
     (commas_rev xs ! i = CHR '','') = (i mod 4 = 3)"
proof (induction xs arbitrary: i rule: commas_rev.induct)
  case (1 a b c d xs)
  from 1(2) have abc: "a \<noteq> CHR '',''" "b \<noteq> CHR '',''" "c \<noteq> CHR '',''"
    and rest: "CHR '','' \<notin> set (d # xs)"
    by auto
  consider "i = 0" | "i = 1" | "i = 2" | "i = 3" | j where "i = Suc (Suc (Suc (Suc j)))"
    by (metis One_nat_def Suc_1 numeral_3_eq_3 not0_implies_Suc)
  then show ?case
  proof cases
    case 1
    with abc show ?thesis by simp
  next
    case 2
    with abc show ?thesis by simp
  next
    case 3
    with abc show ?thesis by simp
  next
    case 4
    then show ?thesis by simp
  next
    case (5 j)
    with "1.prems"(2) have "j < length (commas_rev (d # xs))"
      by simp
    with "1.IH" rest have "(commas_rev (d # xs) ! j = CHR '','') = (j mod 4 = 3)"
      by blast
    with 5 show ?thesis
      by (simp only: commas_rev.simps nth_after_group mod_four_shift)
  qed
next
  case "2_1"
  then show ?case by simp
next
  case "2_2"
  then show ?case by simp
next
  case "2_3"
  then have "i = 0 \<or> i = 1"
    by auto
  with "2_3" show ?case
    by auto
next
  case "2_4"
  then have "i = 0 \<or> i = 1 \<or> i = 2"
    by auto
  with "2_4" show ?case
    by auto
qed

lemma comma_not_digit:
  "list_all is_digit d \<Longrightarrow> CHR '','' \<notin> set d"
  by (auto simp: list_all_iff is_digit_def less_eq_char_def)

lemma grouped_group_thousands:
  assumes "d \<noteq> []" and "CHR '','' \<notin> set d"
  shows "grouped_by_thousands (group_thousands d) d"
proof -
  define ys where "ys = commas_rev (rev d)"
  have g: "group_thousands d = rev ys"
    by (simp add: group_thousands_def ys_def)
  have comma: "CHR '','' \<notin> set (rev d)"
    using assms(2) by simp
  have "filter (\<lambda>c. c \<noteq> CHR '','') ys = rev d"
    unfolding ys_def using comma by (rule filter_commas_rev)
  then have filtered: "filter (\<lambda>c. c \<noteq> CHR '','') (rev ys) = d"
    by (simp add: rev_filter [symmetric])
  have nonempty: "ys \<noteq> []"
    using assms(1) by (simp add: ys_def commas_rev_empty)
  have "last ys = last (rev d)"
    unfolding ys_def using assms(1) by (simp add: last_commas_rev)
  then have "hd (rev ys) = hd d"
    using assms(1) nonempty by (simp add: hd_rev last_rev)
  moreover have "hd d \<in> set d"
    using assms(1) by simp
  ultimately have first: "hd (rev ys) \<noteq> CHR '',''"
    using assms(2) by auto
  have positions: "list_all (\<lambda>i. (rev (rev ys) ! i = CHR '','') = (i mod 4 = 3)) [0..<length (rev ys)]"
    using comma by (simp add: list_all_iff ys_def commas_rev_positions)
  show ?thesis
    unfolding grouped_by_thousands_def g
    using filtered nonempty first positions by simp
qed

lemma renders_format_fixed:
  "renders n x (format_fixed n x)"
proof -
  define q where "q = \<bar>x\<bar> * 10 ^ n"
  define r where "r = nat (round_half_even q)"
  define d where "d = digits_of (r div 10 ^ n)"
  define f where "f = (if n = 0 then [] else zero_pad n (digits_of (r mod 10 ^ n)))"
  have "0 \<le> q"
    by (simp add: q_def)
  then have rounded: "rounded_half_even q r"
    unfolding r_def by (rule round_half_even_nearest)
  have decimal: "decimal_of d (r div 10 ^ n)"
    unfolding d_def by (rule decimal_of_digits_of)
  then have "d \<noteq> []" and "CHR '','' \<notin> set d"
    by (simp_all add: decimal_of_def comma_not_digit)
  then have grouped: "grouped_by_thousands (group_thousands d) d"
    by (rule grouped_group_thousands)
  have fraction: "length f = n \<and> list_all is_digit f \<and> read_nat f = r mod 10 ^ n"
  proof (cases "n = 0")
    case True
    then show ?thesis
      by (simp add: f_def read_nat_def)
  next
    case False
    then have "0 < n" and "r mod 10 ^ n < 10 ^ n"
      by simp_all
    then show ?thesis
      using False by (simp add: f_def zero_pad_fraction)
  qed
  have shape: "format_fixed n x
      = (if x < 0 then ''-'' else '''') @ group_thousands d @ (if n = 0 then '''' else CHR ''.'' # f)"
    by (simp add: format_fixed_def Let_def r_def q_def d_def f_def)
  show ?thesis
    unfolding renders_def
    using rounded decimal grouped fraction shape unfolding q_def by blast
qed

text \<open>No other text meets the account: the rounding, the digits, the padding and the grouping are determined.\<close>

lemma rounded_half_even_unique:
  assumes "rounded_half_even q r" and "rounded_half_even q r'"
  shows "r = r'"
proof (rule ccontr)
  assume different: "r \<noteq> r'"
  define a where "a = of_nat r - q"
  define b where "b = of_nat r' - q"
  have a: "\<bar>a\<bar> < 1 / 2 \<or> (\<bar>a\<bar> = 1 / 2 \<and> even r)"
    using assms(1) by (simp add: rounded_half_even_def a_def)
  have b: "\<bar>b\<bar> < 1 / 2 \<or> (\<bar>b\<bar> = 1 / 2 \<and> even r')"
    using assms(2) by (simp add: rounded_half_even_def b_def)
  have diff: "a - b = of_int (int r - int r')"
    by (simp add: a_def b_def)
  have "\<bar>a - b\<bar> \<le> 1"
    using a b by linarith
  then have "\<bar>of_int (int r - int r') :: rat\<bar> \<le> 1"
    by (simp only: diff)
  then have "\<bar>int r - int r'\<bar> \<le> 1"
    by (simp only: of_int_abs [symmetric] of_int_le_1_iff)
  with different consider "int r = int r' + 1" | "int r' = int r + 1"
    by linarith
  then show False
  proof cases
    case 1
    then have "a - b = 1"
      by (simp add: diff)
    with a b have "even r" and "even r'"
      by linarith+
    with 1 show False
      by presburger
  next
    case 2
    then have "b - a = 1"
      using diff by simp
    with a b have "even r" and "even r'"
      by linarith+
    with 2 show False
      by presburger
  qed
qed

lemma of_char_digit_char:
  "d < 10 \<Longrightarrow> of_char (digit_char d) = (48 + d :: nat)"
  using ten_cases [of d] by (auto simp: digit_char_def)

lemma is_digit_cases:
  assumes "is_digit c"
  obtains d where "d < 10" and "c = digit_char d"
proof -
  define k where "k = (of_char c :: nat)"
  from assms have "48 \<le> k" and "k \<le> 57"
    by (simp_all add: is_digit_def less_eq_char_def k_def)
  then have small: "k - 48 < 10" and "k = 48 + (k - 48)"
    by simp_all
  then have "(of_char c :: nat) = of_char (digit_char (k - 48))"
    by (simp add: of_char_digit_char k_def)
  then have "c = digit_char (k - 48)"
    by (simp only: of_char_eq_iff)
  with small show ?thesis
    by (rule that)
qed

lemma digit_of_less:
  "is_digit c \<Longrightarrow> digit_of c < 10"
  by (erule is_digit_cases) (simp add: digit_of_digit_char)

lemma digit_char_digit_of:
  "is_digit c \<Longrightarrow> digit_char (digit_of c) = c"
  by (erule is_digit_cases) (simp add: digit_of_digit_char)

lemma digit_of_inj:
  "is_digit a \<Longrightarrow> is_digit b \<Longrightarrow> digit_of a = digit_of b \<Longrightarrow> a = b"
  by (metis digit_char_digit_of)

lemma read_nat_positive:
  "s \<noteq> [] \<Longrightarrow> list_all is_digit s \<Longrightarrow> hd s \<noteq> CHR ''0'' \<Longrightarrow> 0 < read_nat s"
proof (induction s rule: rev_induct)
  case Nil
  then show ?case by simp
next
  case (snoc c s)
  show ?case
  proof (cases "s = []")
    case True
    with snoc.prems have "is_digit c" and "c \<noteq> CHR ''0''"
      by simp_all
    then have "digit_of c \<noteq> 0"
      by (metis digit_char_digit_of digit_char_zero digit_of_less)
    with True show ?thesis
      by (simp add: read_nat_def)
  next
    case False
    with snoc have "0 < read_nat s"
      by simp
    then show ?thesis
      by (simp add: read_nat_snoc)
  qed
qed

lemma digits_of_read_nat:
  "s \<noteq> [] \<Longrightarrow> list_all is_digit s \<Longrightarrow> hd s \<noteq> CHR ''0'' \<or> s = ''0''
     \<Longrightarrow> digits_of (read_nat s) = s"
proof (induction s rule: rev_induct)
  case Nil
  then show ?case by simp
next
  case (snoc c s)
  from snoc.prems have c: "is_digit c"
    by simp
  show ?case
  proof (cases "s = []")
    case True
    then have "read_nat (s @ [c]) = digit_of c"
      by (simp add: read_nat_def)
    with True c show ?thesis
      by (subst digits_of.simps) (simp add: digit_of_less digit_char_digit_of)
  next
    case False
    with snoc.prems have digits: "list_all is_digit s" and first: "hd s \<noteq> CHR ''0''"
      by auto
    with False have "0 < read_nat s"
      by (simp add: read_nat_positive)
    then have large: "\<not> read_nat (s @ [c]) < 10"
      by (simp add: read_nat_snoc)
    have quotient: "read_nat (s @ [c]) div 10 = read_nat s"
      and remainder: "read_nat (s @ [c]) mod 10 = digit_of c"
      using digit_of_less [OF c] by (simp_all add: read_nat_snoc)
    have "digits_of (read_nat s) = s"
      using False digits first by (simp add: snoc.IH)
    then show ?thesis
      using large c
      by (subst digits_of.simps) (simp add: quotient remainder digit_char_digit_of)
  qed
qed

lemma decimal_of_unique:
  "decimal_of d k \<Longrightarrow> d = digits_of k"
  using digits_of_read_nat [of d] by (auto simp: decimal_of_def)

lemma decimal_step_inj:
  fixes p q u v :: nat
  shows "u < 10 \<Longrightarrow> v < 10 \<Longrightarrow> 10 * p + u = 10 * q + v \<Longrightarrow> p = q \<and> u = v"
  by arith

lemma read_nat_inj:
  "length xs = length ys \<Longrightarrow> list_all is_digit xs \<Longrightarrow> list_all is_digit ys
     \<Longrightarrow> read_nat xs = read_nat ys \<Longrightarrow> xs = ys"
proof (induction xs arbitrary: ys rule: rev_induct)
  case Nil
  then show ?case by simp
next
  case (snoc a xs)
  from snoc.prems(1) obtain b zs where ys: "ys = zs @ [b]"
    by (cases ys rule: rev_cases) auto
  from snoc.prems ys have a: "is_digit a" and b: "is_digit b"
    by simp_all
  from snoc.prems(4) have "10 * read_nat xs + digit_of a = 10 * read_nat zs + digit_of b"
    by (simp add: ys read_nat_snoc)
  with digit_of_less [OF a] digit_of_less [OF b]
  have "read_nat xs = read_nat zs \<and> digit_of a = digit_of b"
    by (rule decimal_step_inj)
  then have same: "read_nat xs = read_nat zs" and "a = b"
    using a b by (simp_all add: digit_of_inj)
  moreover from snoc.prems ys have "length xs = length zs"
    and "list_all is_digit xs" and "list_all is_digit zs"
    by simp_all
  then have "xs = zs"
    using same by (rule snoc.IH)
  ultimately show ?case
    by (simp add: ys)
qed

lemma commas_rev_filter:
  assumes "\<forall>i<length u. (u ! i = CHR '','') = (i mod 4 = 3)"
    and "u \<noteq> [] \<longrightarrow> last u \<noteq> CHR '',''"
  shows "commas_rev (filter (\<lambda>c. c \<noteq> CHR '','') u) = u"
  using assms
proof (induction "length u" arbitrary: u rule: less_induct)
  case less
  show ?case
  proof (cases u rule: commas_rev.cases)
    case (1 a b c e v)
    have at: "(u ! i = CHR '','') = (i mod 4 = 3)" if "i < length u" for i
      using less.prems(1) that by simp
    have a: "a \<noteq> CHR '',''"
      using at [of 0] by (simp add: 1)
    have b: "b \<noteq> CHR '',''"
      using at [of 1] by (simp add: 1)
    have c: "c \<noteq> CHR '',''"
      using at [of 2] by (simp add: 1)
    have e: "e = CHR '',''"
      using at [of 3] by (simp add: 1)
    have "last u \<noteq> CHR '',''"
      using less.prems(2) by (simp add: 1)
    with e have "v \<noteq> []"
      by (auto simp: 1)
    then obtain f w where v: "v = f # w"
      by (cases v) auto
    have positions: "\<forall>j<length v. (v ! j = CHR '','') = (j mod 4 = 3)"
    proof (intro allI impI)
      fix j
      assume "j < length v"
      then have "Suc (Suc (Suc (Suc j))) < length u"
        by (simp add: 1)
      from at [OF this] show "(v ! j = CHR '','') = (j mod 4 = 3)"
        by (simp only: 1 nth_after_group mod_four_shift)
    qed
    then have f: "f \<noteq> CHR '',''"
      by (auto simp: v)
    have "last v \<noteq> CHR '',''"
      using less.prems(2) \<open>v \<noteq> []\<close> by (simp add: 1)
    then have "commas_rev (filter (\<lambda>c. c \<noteq> CHR '','') v) = v"
      using positions by (intro less.hyps) (simp_all add: 1)
    then show ?thesis
      using a b c e f by (simp add: 1 v)
  next
    case "2_1"
    then show ?thesis by simp
  next
    case "2_2"
    with less.prems(1) [rule_format, of 0] show ?thesis
      by simp
  next
    case "2_3"
    with less.prems(1) [rule_format, of 0] less.prems(1) [rule_format, of 1] show ?thesis
      by simp
  next
    case "2_4"
    with less.prems(1) [rule_format, of 0] less.prems(1) [rule_format, of 1]
      less.prems(1) [rule_format, of 2]
    show ?thesis
      by simp
  qed
qed

lemma grouped_unique:
  assumes "grouped_by_thousands g d"
  shows "g = group_thousands d"
proof -
  from assms have filtered: "filter (\<lambda>c. c \<noteq> CHR '','') g = d"
    and nonempty: "g \<noteq> []" and first: "hd g \<noteq> CHR '',''"
    and positions: "\<forall>i<length (rev g). (rev g ! i = CHR '','') = (i mod 4 = 3)"
    by (simp_all add: grouped_by_thousands_def list_all_iff)
  have "last (rev g) \<noteq> CHR '',''"
    using nonempty first by (simp add: last_rev)
  then have "commas_rev (filter (\<lambda>c. c \<noteq> CHR '','') (rev g)) = rev g"
    using positions by (intro commas_rev_filter) simp_all
  moreover have "filter (\<lambda>c. c \<noteq> CHR '','') (rev g) = rev d"
    by (simp add: rev_filter [symmetric] filtered)
  ultimately have "rev (commas_rev (rev d)) = g"
    by simp
  then show ?thesis
    by (simp add: group_thousands_def)
qed

lemma renders_unique:
  assumes "renders n x s"
  shows "s = format_fixed n x"
proof -
  define q where "q = \<bar>x\<bar> * 10 ^ n"
  from assms obtain r g d f where rounded: "rounded_half_even q r"
    and decimal: "decimal_of d (r div 10 ^ n)" and grouped: "grouped_by_thousands g d"
    and fraction: "length f = n" "list_all is_digit f" "read_nat f = r mod 10 ^ n"
    and s: "s = (if x < 0 then ''-'' else '''') @ g @ (if n = 0 then '''' else CHR ''.'' # f)"
    unfolding renders_def q_def by blast
  have "0 \<le> q"
    by (simp add: q_def)
  then have "rounded_half_even q (nat (round_half_even q))"
    by (rule round_half_even_nearest)
  with rounded have r: "r = nat (round_half_even q)"
    by (rule rounded_half_even_unique)
  have d: "d = digits_of (r div 10 ^ n)"
    using decimal by (rule decimal_of_unique)
  have g: "g = group_thousands d"
    using grouped by (rule grouped_unique)
  have f: "f = zero_pad n (digits_of (r mod 10 ^ n))" if "n \<noteq> 0"
  proof -
    from that have "0 < n" and "r mod 10 ^ n < 10 ^ n"
      by simp_all
    from zero_pad_fraction [OF this] fraction show ?thesis
      by (intro read_nat_inj) simp_all
  qed
  show ?thesis
    by (simp add: s g d f format_fixed_def Let_def r q_def)
qed

text \<open>
  Claim C8. \<^verbatim>\<open>_format_amount\<close> is the rule of the specification: 8 decimals for BTC, ETH and
  SOL, then the trailing zeros and one trailing point stripped; for any other code 2
  decimals from 100 on, 4 decimals from 1 up to 100, and 6 decimals with the same stripping
  below 1. Rendering with \<open>n\<close> decimals is meant as \<open>renders\<close> states it: the sign, the
  integer digits grouped in threes, a point and exactly \<open>n\<close> digits, the value rounded to the
  nearest and to the even neighbour on a tie. The text \<^verbatim>\<open>_format_amount\<close> returns is a
  formatting by that rule and the only one, and so is the text of \<^verbatim>\<open>f"{x:,.nf}"\<close> for
  \<open>renders\<close>. The three examples evaluate as stated; the second also at the exact value of
  the float nearest to 0.123456789.
\<close>

theorem format_amount_rule:
  "(spec_formatted amount code s \<longleftrightarrow> s = format_amount amount code)
   \<and> (renders n x t \<longleftrightarrow> t = format_fixed n x)
   \<and> format_amount amount code = spec_format amount code
   \<and> format_amount (12345 / 10) ''USD'' = ''1,234.50''
   \<and> format_amount (123456789 / 1000000000) ''BTC'' = ''0.12345679''
   \<and> format_amount (8895999182988127 / 72057594037927936) ''BTC'' = ''0.12345679''
   \<and> format_amount (1 / 2) ''USD'' = ''0.5''
   \<and> format_fixed 6 (1 / 2) = ''0.500000''"
proof -
  have rendering: "renders k y u \<longleftrightarrow> u = format_fixed k y" for k y u
    using renders_unique [of k y u] renders_format_fixed [of k y] by blast
  have rule: "spec_formatted amount code s \<longleftrightarrow> s = format_amount amount code"
    by (simp add: spec_formatted_def rendering format_amount_spec spec_format_def)
  have a: "format_amount (12345 / 10) ''USD'' = ''1,234.50''"
    unfolding format_unfold by (simp add: format_eval)
  have b: "format_amount (123456789 / 1000000000) ''BTC'' = ''0.12345679''"
    unfolding format_unfold by (simp add: format_eval)
  have c: "format_amount (8895999182988127 / 72057594037927936) ''BTC'' = ''0.12345679''"
    unfolding format_unfold by (simp add: format_eval)
  have d: "format_amount (1 / 2) ''USD'' = ''0.5''"
    unfolding format_unfold by (simp add: format_eval)
  have e: "format_fixed 6 (1 / 2) = ''0.500000''"
    unfolding format_unfold by (simp add: format_eval)
  show ?thesis
    using rule rendering [of n x t] format_amount_spec [of amount code] a b c d e by blast
qed

theorem format_amount_rule_witness:
  "spec_formatted (12345 / 10) ''USD'' ''1,234.50''
   \<and> renders 2 (12345 / 10) ''1,234.50''
   \<and> spec_formatted (1 / 2) ''USD'' ''0.5''
   \<and> renders 6 (1 / 2) ''0.500000''
   \<and> \<not> renders 6 (1 / 2) ''0.5''
   \<and> \<not> renders 2 (12345 / 10) ''1234.50''"
proof -
  have a: "format_fixed 2 (12345 / 10) = ''1,234.50''"
    unfolding format_unfold by (simp add: format_eval)
  have b: "format_fixed 6 (1 / 2) = ''0.500000''"
    unfolding format_unfold by (simp add: format_eval)
  have ungrouped: "''1234.50'' \<noteq> format_fixed 2 (12345 / 10)"
    unfolding a by simp
  have stripped: "''0.5'' \<noteq> format_fixed 6 (1 / 2)"
    unfolding b by simp
  have "spec_formatted (12345 / 10) ''USD'' ''1,234.50''"
    using format_amount_rule [of "12345 / 10" "''USD''" "''1,234.50''"] by metis
  moreover have "renders 2 (12345 / 10) ''1,234.50''"
    using format_amount_rule [of _ _ _ 2 "12345 / 10" "''1,234.50''"] a by metis
  moreover have "spec_formatted (1 / 2) ''USD'' ''0.5''"
    using format_amount_rule [of "1 / 2" "''USD''" "''0.5''"] by metis
  moreover have "renders 6 (1 / 2) ''0.500000''"
    using format_amount_rule [of _ _ _ 6 "1 / 2" "''0.500000''"] by metis
  moreover have "\<not> renders 6 (1 / 2) ''0.5''"
    using format_amount_rule [of _ _ _ 6 "1 / 2" "''0.5''"] stripped by metis
  moreover have "\<not> renders 2 (12345 / 10) ''1234.50''"
    using format_amount_rule [of _ _ _ 2 "12345 / 10" "''1234.50''"] ungrouped by metis
  ultimately show ?thesis
    by blast
qed

section \<open>Properties of the update notifier\<close>

lemma get_update_notification_empty:
  "get_update_notification vparse st = Inr n \<Longrightarrow> n = []"
  by (auto simp: get_update_notification_def
      split: option.splits if_splits pyval.splits json.splits)

lemma notify_never_emits:
  "snd (snd (notify vparse event_emitter st)) = []"
  by (auto simp: notify_def dest: get_update_notification_empty split: option.splits sum.splits)

lemma check_and_notify_never_emits:
  "snd (snd (check_and_notify_updates V vparse now gh u event_emitter st)) = []"
  by (auto simp: check_and_notify_updates_def notify_never_emits
      split: sum.splits prod.splits option.splits)

lemma release_version_examples:
  "release_version ''0.2.0'' = Some [0, 2]"
  "release_version ''0.1.0'' = Some [0, 1]"
  "release_version ''1.0'' = Some [1]"
  "release_version ''nightly'' = None"
  by (simp_all add: release_version_def digit_value_def)

text \<open>
  Claim C5. The stored version 0.2.0 is newer than the running 0.1.0, the notification
  has not been shown and the callback is there. \<^verbatim>\<open>_get_update_notification\<close> reaches the
  f-string of line 105, whose \<^verbatim>\<open>{EXT_TITLE}\<close> raises \<^verbatim>\<open>NameError\<close>; the exception leaves
  \<^verbatim>\<open>_check_and_notify_updates\<close>, no message is emitted and \<^verbatim>\<open>has_shown_notification\<close> stays
  false, so a second call does the same. A stored version that does not parse, or one that
  is not newer, gives no message and no exception.
\<close>

theorem notify_newer_version_raises:
  "notify release_version True newer_version_state
     = (Some (NameError ''EXT_TITLE''), newer_version_state, [])
   \<and> check_and_notify_updates default_valves release_version (datetime_2024_01_01 + 1000)
        RequestFailed NotADict True newer_version_state
     = (Some (NameError ''EXT_TITLE''), newer_version_state, [])
   \<and> notify release_version True
        (AList.update ''latest_version'' (Json (JStr ''nightly'')) newer_version_state)
     = (None, AList.update ''latest_version'' (Json (JStr ''nightly'')) newer_version_state, [])
   \<and> notify release_version True
        (AList.update ''latest_version'' (Json (JStr ''0.1.0'')) newer_version_state)
     = (None, AList.update ''latest_version'' (Json (JStr ''0.1.0'')) newer_version_state, [])"
  by (simp add: notify_def check_and_notify_updates_def should_check_for_updates_def
      get_update_notification_def newer_version_state_def release_version_examples
      CURRENT_VERSION_def default_valves_def)

lemma tools_leave_update_state:
  "tool_update_state (snd (convert_currency T t net f target a u)) = tool_update_state T"
  "tool_update_state (snd (get_crypto_price T t net crypto currency u)) = tool_update_state T"
  "tool_update_state (snd (list_currencies T t net filter_type u)) = tool_update_state T"
  by (auto simp: convert_currency_def get_crypto_price_def list_currencies_def on_fetched_def
      Let_def split: prod.splits sum.splits payload.splits)

text \<open>
  Claim C6. No tool calls \<^verbatim>\<open>_check_and_notify_updates\<close>: each of the three tools leaves
  \<^verbatim>\<open>self.update_state\<close> as it was (and has no event emitter to send a message through). Here
  the invoking user is an admin, update checks are enabled and the last check is more
  than 24 hours old: the check transition would set \<^verbatim>\<open>last_check\<close> to the current time,
  and the three tools leave it at 2024-01-01.
\<close>

theorem tools_do_not_run_the_notifier:
  "tool_update_state (snd (convert_currency initial_tools 1000 (Decoded (Table example_table))
        ''USD'' (Some ''EUR'') 1 (UserDict (Some ''admin'')))) = default_state
   \<and> tool_update_state (snd (get_crypto_price initial_tools 1000 (Decoded (Table example_table))
        ''BTC'' ''USD'' (UserDict (Some ''admin'')))) = default_state
   \<and> tool_update_state (snd (list_currencies initial_tools 1000 (Decoded (Table example_table))
        None (UserDict (Some ''admin'')))) = default_state
   \<and> should_check_for_updates default_valves (datetime_2024_01_01 + hours_24)
        (UserDict (Some ''admin'')) default_state = Inr True
   \<and> fst (snd (check_and_notify_updates default_valves release_version
        (datetime_2024_01_01 + hours_24) RequestFailed (UserDict (Some ''admin'')) False default_state))
     = AList.update ''last_check'' (DateTime (datetime_2024_01_01 + hours_24)) default_state
   \<and> AList.update ''last_check'' (DateTime (datetime_2024_01_01 + hours_24)) default_state
     \<noteq> default_state"
proof -
  have state: "tool_update_state initial_tools = default_state"
    by (simp add: initial_tools_def)
  have due: "should_check_for_updates default_valves (datetime_2024_01_01 + hours_24)
      (UserDict (Some ''admin'')) default_state = Inr True"
    by (simp add: should_check_for_updates_def default_valves_def default_state_def)
  have checked: "fst (snd (check_and_notify_updates default_valves release_version
      (datetime_2024_01_01 + hours_24) RequestFailed (UserDict (Some ''admin'')) False default_state))
      = AList.update ''last_check'' (DateTime (datetime_2024_01_01 + hours_24)) default_state"
    unfolding check_and_notify_updates_def due
    by (simp add: check_github_release_def save_state_def notify_def default_state_def
        is_datetime_def)
  have changed: "AList.update ''last_check'' (DateTime (datetime_2024_01_01 + hours_24)) default_state
      \<noteq> default_state"
    by (simp add: default_state_def hours_24_def)
  show ?thesis
    using state due checked changed by (simp add: tools_leave_update_state)
qed

lemma load_state_defaults:
  "load_state fromisoformat Missing = Inr default_state"
  "load_state fromisoformat Undecodable = Inr default_state"
  by (simp_all add: load_state_def)

text \<open>
  Claim C9. A missing file and content that is not JSON give the default state. Content
  that is JSON but not an object (here the array \<^verbatim>\<open>[]\<close>) makes \<^verbatim>\<open>data.get\<close> raise
  \<^verbatim>\<open>AttributeError\<close>, and an object whose \<^verbatim>\<open>last_check\<close> is not a string (here the number 5)
  makes \<^verbatim>\<open>fromisoformat\<close> raise \<^verbatim>\<open>TypeError\<close>; line 56 catches neither, so loading fails.
\<close>

theorem load_state_raises_on_valid_json:
  "load_state fromisoformat (Parsed (JArr [])) = Inl AttributeError
   \<and> load_state fromisoformat (Parsed (JObj [(''last_check'', JNum 5)])) = Inl TypeError
   \<and> load_state fromisoformat Missing = Inr default_state
   \<and> load_state fromisoformat Undecodable = Inr default_state"
  by (simp add: load_state_def dict_of_object_def last_check_text_def)

end
